theory Spec2Isabelle
  imports Complex_Main "HOL-Library.Sublist"
begin

section \<open>Python values\<close>

text \<open>
  Strings are ASCII texts (\<^typ>\<open>string\<close>).  A value decoded from a model reply is a
  \<open>json\<close>: \<open>JNull\<close> is Python's \<open>None\<close>, \<open>JInt\<close> an \<open>int\<close>, \<open>JFloat r\<close> a finite
  \<open>float\<close> of exact value \<open>r\<close>, \<open>JObj\<close> a \<open>dict\<close> given by its items (keys distinct, as in
  a Python \<open>dict\<close>).  The non-finite floats that \<open>json.loads\<close> accepts are left out: in
  the comparisons of this program they behave as a float outside every index range.
  An exception is its class name and its \<open>str()\<close>.
\<close>

datatype json =
    JNull
  | JBool bool
  | JInt int
  | JFloat rat
  | JStr string
  | JArr "json list"
  | JObj "(string \<times> json) list"

datatype exn = Exn (exn_type: string) (exn_str: string)

definition TypeError :: exn where
  "TypeError = Exn ''TypeError'' []"

definition AttributeError :: exn where
  "AttributeError = Exn ''AttributeError'' []"

text \<open>\<open>d.get(k)\<close> and \<open>d.get(k, default)\<close> on a \<open>dict\<close>.\<close>

definition dict_get :: "(string \<times> json) list \<Rightarrow> string \<Rightarrow> json" where
  "dict_get kvs k = (case map_of kvs k of None \<Rightarrow> JNull | Some v \<Rightarrow> v)"

definition dict_get_default :: "(string \<times> json) list \<Rightarrow> string \<Rightarrow> json \<Rightarrow> json" where
  "dict_get_default kvs k dflt = (case map_of kvs k of None \<Rightarrow> dflt | Some v \<Rightarrow> v)"

subsection \<open>String methods\<close>

definition lower_char :: "char \<Rightarrow> char" where
  "lower_char c =
     (let n = (of_char c :: nat) in if 65 \<le> n \<and> n \<le> 90 then char_of (n + 32) else c)"

definition py_lower :: "string \<Rightarrow> string" where
  "py_lower s = map lower_char s"

definition py_isspace :: "char \<Rightarrow> bool" where
  "py_isspace c = ((of_char c :: nat) \<in> set [9, 10, 11, 12, 13, 28, 29, 30, 31, 32])"

text \<open>\<open>s.split()\<close>: the maximal runs of non-whitespace characters.\<close>

fun split_ws :: "string \<Rightarrow> string \<Rightarrow> string list" where
  "split_ws [] cur = (if cur = [] then [] else [cur])"
| "split_ws (c # cs) cur =
     (if py_isspace c then (if cur = [] then split_ws cs [] else cur # split_ws cs [])
      else split_ws cs (cur @ [c]))"

definition py_split :: "string \<Rightarrow> string list" where
  "py_split s = split_ws s []"

text \<open>\<open>sub in s\<close> is \<^const>\<open>sublist\<close>.  \<open>s.count(sub)\<close> counts non-overlapping
  occurrences from the left; \<open>skip\<close> is the number of characters of the last match
  still to step over.\<close>

fun count_from :: "string \<Rightarrow> nat \<Rightarrow> string \<Rightarrow> nat" where
  "count_from sub skip [] = 0"
| "count_from sub skip (c # cs) =
     (if 0 < skip then count_from sub (skip - 1) cs
      else if prefix sub (c # cs) then 1 + count_from sub (length sub - 1) cs
      else count_from sub 0 cs)"

definition py_count :: "string \<Rightarrow> string \<Rightarrow> nat" where
  "py_count s sub = (if sub = [] then length s + 1 else count_from sub 0 s)"

text \<open>\<open>xs[:n]\<close> for an \<open>int\<close> \<open>n\<close>: a negative \<open>n\<close> counts from the end.\<close>

definition py_take :: "int \<Rightarrow> 'a list \<Rightarrow> 'a list" where
  "py_take n xs = (if 0 \<le> n then take (nat n) xs else take (nat (int (length xs) + n)) xs)"

section \<open>Data model\<close>

text \<open>
  The dictionaries that travel between the components are records.  \<open>source\<close> is the
  \<open>{url, title}\<close> pair of a result's \<open>sources\<close>; a search result and a content item
  extend it.  A content item is built by \<open>ResearchAgent.research\<close> with the keys
  \<open>url\<close>, \<open>title\<close>, \<open>content\<close>, \<open>metadata\<close>; \<open>published_date\<close>,
  \<open>relevance_score\<close> and \<open>relevance_reason\<close> are the optional keys the content
  analyzer reads or writes (\<open>None\<close>: the key is absent).
\<close>

record source =
  url :: string
  title :: string

record meta_source = source +
  metadata :: json

record candidate = meta_source +
  snippet :: string

record item = meta_source +
  content :: string
  published_date :: "string option"
  relevance_score :: "json option"
  relevance_reason :: "json option"

record query_analysis =
  query_type :: string
  topics :: "string list"
  search_terms :: "string list"
  time_sensitivity :: string
  required_depth :: string
  result_limit :: "int option"

section \<open>Content analyzer: \<open>_basic_text_filter\<close>\<close>

definition common_words :: "string list" where
  "common_words = [''the'', ''a'', ''an'', ''and'', ''or'', ''but'', ''in'', ''on'', ''at'',
     ''to'', ''for'', ''with'', ''by'', ''about'', ''of'']"

definition key_terms_of :: "query_analysis \<Rightarrow> string list" where
  "key_terms_of qa =
     (let all_key_terms =
            concat (map (\<lambda>term. py_split (py_lower term)) (search_terms qa)) @
            concat (map (\<lambda>topic. py_split (py_lower topic)) (topics qa))
      in filter (\<lambda>term. term \<notin> set common_words \<and> 2 < length term) all_key_terms)"

definition title_score :: "string list \<Rightarrow> string \<Rightarrow> int" where
  "title_score key_terms ttl = (\<Sum>term\<leftarrow>key_terms. if sublist term ttl then 10 else 0)"

definition url_score :: "string list \<Rightarrow> string \<Rightarrow> int" where
  "url_score key_terms u = (\<Sum>term\<leftarrow>key_terms. if sublist term u then 3 else 0)"

definition content_score :: "string list \<Rightarrow> string \<Rightarrow> int" where
  "content_score key_terms c =
     (\<Sum>term\<leftarrow>key_terms.
        (let term_count = int (py_count c term)
         in if 0 < term_count then min 5 term_count * 2 else 0))"

definition phrase_score :: "string list \<Rightarrow> string \<Rightarrow> string \<Rightarrow> int" where
  "phrase_score terms c ttl =
     (\<Sum>term\<leftarrow>terms.
        if 1 < length (py_split term)
        then (if sublist (py_lower term) c then 15 else 0) +
             (if sublist (py_lower term) ttl then 25 else 0)
        else 0)"

text \<open>
  The freshness bonus reads the clock and parses a date: \<open>days_old d\<close> is
  \<open>(datetime.now() - datetime.fromisoformat(d.replace('Z', '+00:00'))).days\<close>, and
  \<open>None\<close> when that raises \<open>ValueError\<close> or \<open>TypeError\<close>, which the source catches.
\<close>

definition freshness_score :: "(string \<Rightarrow> int option) \<Rightarrow> string option \<Rightarrow> int" where
  "freshness_score days_old pd =
     (case pd of
        None \<Rightarrow> 0
      | Some d \<Rightarrow>
          if d = [] then 0
          else (case days_old d of
                  None \<Rightarrow> 0
                | Some n \<Rightarrow> if n < 30 then 10 else if n < 90 then 5 else if n < 365 then 2 else 0))"

definition length_score :: "string \<Rightarrow> int" where
  "length_score c =
     (let content_length = length (py_split c)
      in if 1000 < content_length then 5
         else if 500 < content_length then 3
         else if 200 < content_length then 1
         else 0)"

definition score_item :: "(string \<Rightarrow> int option) \<Rightarrow> query_analysis \<Rightarrow> item \<Rightarrow> int" where
  "score_item days_old qa it =
     (let c = py_lower (content it);
          ttl = py_lower (title it);
          u = py_lower (url it);
          key_terms = key_terms_of qa
      in min 50 (title_score key_terms ttl)
         + min 15 (url_score key_terms u)
         + content_score key_terms c
         + phrase_score (search_terms qa) c ttl
         + freshness_score days_old (published_date it)
         + length_score c)"

text \<open>
  The items are Python objects shared between \<open>content_items\<close> and the lists the
  analyzer builds: the model keeps them in a store (the list \<open>content_items\<close> itself)
  and the built lists hold indices into it.  The loop writes \<open>relevance_score\<close> into
  the item it keeps.
\<close>

definition threshold :: int where
  "threshold = 5"

definition max_results :: nat where
  "max_results = 20"

fun filter_loop ::
  "(string \<Rightarrow> int option) \<Rightarrow> query_analysis \<Rightarrow> nat list \<Rightarrow> item list \<Rightarrow> nat list
    \<Rightarrow> item list \<times> nat list" where
  "filter_loop days_old qa [] st filtered_items = (st, filtered_items)"
| "filter_loop days_old qa (i # is) st filtered_items =
     (let score = score_item days_old qa (st ! i)
      in if threshold < score
         then filter_loop days_old qa is
                (st[i := (st ! i)\<lparr>relevance_score := Some (JInt (min 98 score))\<rparr>])
                (filtered_items @ [i])
         else filter_loop days_old qa is st filtered_items)"

text \<open>The sort key \<open>x.get("relevance_score", 0)\<close>; the loop stores integers only.\<close>

definition sort_score :: "item \<Rightarrow> int" where
  "sort_score it = (case relevance_score it of Some (JInt n) \<Rightarrow> n | _ \<Rightarrow> 0)"

text \<open>\<open>list.sort(key, reverse=True)\<close> is stable: equal keys keep their order.\<close>

definition basic_text_filter ::
  "(string \<Rightarrow> int option) \<Rightarrow> query_analysis \<Rightarrow> item list \<Rightarrow> item list \<times> nat list" where
  "basic_text_filter days_old qa content_items =
     (case filter_loop days_old qa [0..<length content_items] content_items [] of
        (st, filtered_items) \<Rightarrow>
          (st, take max_results (sort_key (\<lambda>r. - sort_score (st ! r)) filtered_items)))"

section \<open>Content analyzer: \<open>_get_llm_ranking\<close> and \<open>_llm_relevance_ranking\<close>\<close>

text \<open>
  The generative call is a parameter: \<open>llm\<close> is what the provider's call evaluates to,
  the reply text or the exception it raises.  \<open>decode\<close> is
  \<open>_extract_and_clean_json\<close>, regular expressions around \<open>json.loads\<close>: it yields
  the decoded value, \<open>JNull\<close> (Python's \<open>None\<close>) when every parse attempt fails, or an
  exception other than \<open>JSONDecodeError\<close>.
\<close>

definition default_ranking :: "nat \<Rightarrow> json" where
  "default_ranking n =
     JArr (map (\<lambda>i. JObj [(''id'', JInt (int i)), (''relevance_score'', JInt (10 - int i))])
            [0..<min 10 n])"

definition get_llm_ranking :: "(string \<Rightarrow> exn + json) \<Rightarrow> exn + string \<Rightarrow> nat \<Rightarrow> json" where
  "get_llm_ranking decode llm n =
     (case llm of
        Inl e \<Rightarrow> default_ranking n
      | Inr result \<Rightarrow>
          (case decode result of
             Inl e \<Rightarrow> default_ranking n
           | Inr data \<Rightarrow>
               (case data of
                  JObj kvs \<Rightarrow>
                    if ''rankings'' \<in> set (map fst kvs)
                    then dict_get_default kvs ''rankings'' (JArr [])
                    else default_ranking n
                | JArr xs \<Rightarrow> JArr xs
                | _ \<Rightarrow> default_ranking n)))"

text \<open>\<open>for rank in rankings\<close>: a list gives its elements, a \<open>dict\<close> its keys, a string its
  characters; any other value is not iterable.\<close>

definition py_iter :: "json \<Rightarrow> exn + json list" where
  "py_iter v =
     (case v of
        JArr xs \<Rightarrow> Inr xs
      | JObj kvs \<Rightarrow> Inr (map (\<lambda>kv. JStr (fst kv)) kvs)
      | JStr s \<Rightarrow> Inr (map (\<lambda>c. JStr [c]) s)
      | _ \<Rightarrow> Inl TypeError)"

text \<open>
  \<open>item_id is not None and 0 <= item_id < len(items_for_analysis)\<close>, then
  \<open>items_for_analysis[item_id]\<close>: \<open>Inr None\<close> when the condition is false, \<open>Inr (Some k)\<close>
  when the item at \<open>k\<close> is read.  A \<open>bool\<close> is an \<open>int\<close>; comparing a string, list or
  \<open>dict\<close> with \<open>0\<close> raises \<open>TypeError\<close>; a \<open>float\<close> compares, and raises \<open>TypeError\<close> as
  a list index.
\<close>

definition id_index :: "json \<Rightarrow> nat \<Rightarrow> exn + nat option" where
  "id_index item_id n =
     (case item_id of
        JNull \<Rightarrow> Inr None
      | JBool b \<Rightarrow> Inr (if (if b then 1 else 0) < n then Some (if b then 1 else 0) else None)
      | JInt i \<Rightarrow> Inr (if 0 \<le> i \<and> i < int n then Some (nat i) else None)
      | JFloat r \<Rightarrow> if 0 \<le> r \<and> r < of_nat n then Inl TypeError else Inr None
      | _ \<Rightarrow> Inl TypeError)"

text \<open>The first loop of \<open>_llm_relevance_ranking\<close>.  The store is returned on every
  path: what the loop wrote before an exception stays written.\<close>

fun rank_loop ::
  "json list \<Rightarrow> nat list \<Rightarrow> item list \<Rightarrow> nat list \<Rightarrow> (exn + nat list) \<times> item list" where
  "rank_loop [] items_for_analysis st ranked_items = (Inr ranked_items, st)"
| "rank_loop (rank # rankings) items_for_analysis st ranked_items =
     (case rank of
        JObj kvs \<Rightarrow>
          (case id_index (dict_get kvs ''id'') (length items_for_analysis) of
             Inl e \<Rightarrow> (Inl e, st)
           | Inr None \<Rightarrow> rank_loop rankings items_for_analysis st ranked_items
           | Inr (Some item_id) \<Rightarrow>
               (let r = items_for_analysis ! item_id
                in rank_loop rankings items_for_analysis
                     (st[r := (st ! r)
                        \<lparr>relevance_score := Some (dict_get_default kvs ''relevance_score'' (JInt 0)),
                         relevance_reason := Some (dict_get_default kvs ''reason'' (JStr []))\<rparr>])
                     (ranked_items @ [r])))
      | _ \<Rightarrow> (Inl AttributeError, st))"

text \<open>\<open>i == v\<close> for an index \<open>i\<close>, as \<open>i not in ranked_ids\<close> evaluates it.\<close>

definition py_eq_index :: "nat \<Rightarrow> json \<Rightarrow> bool" where
  "py_eq_index i v =
     (case v of
        JBool b \<Rightarrow> i = (if b then 1 else 0)
      | JInt j \<Rightarrow> int i = j
      | JFloat r \<Rightarrow> of_nat i = r
      | _ \<Rightarrow> False)"

definition ranked_ids_of :: "json list \<Rightarrow> json list" where
  "ranked_ids_of rankings =
     filter (\<lambda>v. v \<noteq> JNull)
       (map (\<lambda>r. case r of JObj kvs \<Rightarrow> dict_get kvs ''id'' | _ \<Rightarrow> JNull) rankings)"

definition remaining_items :: "json list \<Rightarrow> nat list \<Rightarrow> nat list" where
  "remaining_items ranked_ids items_for_analysis =
     map (\<lambda>i. items_for_analysis ! i)
       (filter (\<lambda>i. \<not> (\<exists>v\<in>set ranked_ids. py_eq_index i v)) [0..<length items_for_analysis])"

definition llm_relevance_ranking ::
  "(string \<Rightarrow> exn + json) \<Rightarrow> exn + string \<Rightarrow> item list \<Rightarrow> nat list
    \<Rightarrow> (exn + nat list) \<times> item list" where
  "llm_relevance_ranking decode llm st filtered_items =
     (let items_for_analysis = take 10 filtered_items;
          rankings = get_llm_ranking decode llm (length items_for_analysis)
      in case py_iter rankings of
           Inl e \<Rightarrow> (Inl e, st)
         | Inr ranks \<Rightarrow>
             (case rank_loop ranks items_for_analysis st [] of
                (Inl e, st') \<Rightarrow> (Inl e, st')
              | (Inr ranked_items, st') \<Rightarrow>
                  (Inr (ranked_items @ remaining_items (ranked_ids_of ranks) items_for_analysis),
                   st')))"

section \<open>Content analyzer: \<open>analyze\<close>\<close>

text \<open>The result is the list of items as they are in the store when \<open>analyze\<close>
  returns.  \<open>content_items[:3] if len(content_items) > 3 else content_items\<close> is
  \<open>take 3\<close>.\<close>

definition analyze ::
  "(string \<Rightarrow> int option) \<Rightarrow> (string \<Rightarrow> exn + json) \<Rightarrow> exn + string \<Rightarrow> query_analysis
    \<Rightarrow> item list \<Rightarrow> item list" where
  "analyze days_old decode llm qa content_items =
     (case basic_text_filter days_old qa content_items of
        (st, filtered_items) \<Rightarrow>
          if filtered_items = [] then take 3 st
          else if 3 < length filtered_items
          then (case llm_relevance_ranking decode llm st filtered_items of
                  (Inl e, st') \<Rightarrow> take 3 st'
                | (Inr ranked_items, st') \<Rightarrow> map (\<lambda>r. st' ! r) ranked_items)
          else map (\<lambda>r. st ! r) filtered_items)"

section \<open>Search tool\<close>

text \<open>
  The provider is chosen once, in the constructor; \<open>backend term is_news_query\<close> is the
  chosen provider's method: the results for the term, or the exception it raises.
\<close>

type_synonym backend = "string \<Rightarrow> bool \<Rightarrow> exn + candidate list"

fun add_results :: "candidate list \<Rightarrow> int \<Rightarrow> candidate list \<Rightarrow> candidate list" where
  "add_results [] limit results = results"
| "add_results (result # term_results) limit results =
     (if limit \<le> int (length results) then results
      else if \<not> (\<exists>r\<in>set results. url r = url result)
      then add_results term_results limit (results @ [result])
      else add_results term_results limit results)"

fun search_loop :: "backend \<Rightarrow> string list \<Rightarrow> bool \<Rightarrow> int \<Rightarrow> candidate list \<Rightarrow> candidate list" where
  "search_loop backend [] is_news_query limit results = results"
| "search_loop backend (term # terms) is_news_query limit results =
     (if limit \<le> int (length results) then results
      else (case backend term is_news_query of
              Inl e \<Rightarrow> search_loop backend terms is_news_query limit results
            | Inr term_results \<Rightarrow>
                search_loop backend terms is_news_query limit
                  (add_results term_results limit results)))"

text \<open>\<open>self_result_limit\<close> is \<open>self.result_limit\<close>, the constructor's
  \<open>SEARCH_RESULT_LIMIT\<close>; \<open>limit\<close> is \<open>None\<close> when the caller leaves it out.\<close>

definition search :: "int \<Rightarrow> backend \<Rightarrow> string list \<Rightarrow> string \<Rightarrow> int option \<Rightarrow> candidate list" where
  "search self_result_limit backend terms qtype limit =
     (let lim = (case limit of
                   None \<Rightarrow> self_result_limit
                 | Some l \<Rightarrow> if l = 0 then self_result_limit else l);
          is_news_query = (qtype = ''news'')
      in py_take lim (search_loop backend terms is_news_query lim []))"

section \<open>Web scraper\<close>

text \<open>
  The scraper owns the \<open>robots_cache\<close>.  What it does to the outside is recorded in
  \<open>events\<close>, a ghost field: a cache lookup, a read of a host's \<open>robots.txt\<close>, and the
  two fetches.  The two extraction strategies wrap third-party parsers and catch every
  exception themselves; they are parameters, as are \<open>urlparse\<close> and the robots parser.
\<close>

datatype event =
    CacheLookup string
  | RobotsRead string
  | NewspaperFetch string
  | HttpFetch string

record scraper_state =
  robots_cache :: "string \<rightharpoonup> bool"
  events :: "event list"

record scraper_env =
  respect_robots :: bool
  urlparse_base :: "string \<Rightarrow> exn + string"
  robots_can_fetch :: "string \<Rightarrow> string \<Rightarrow> exn + bool"
  scrape_with_newspaper :: "string \<Rightarrow> string option"
  scrape_with_beautifulsoup :: "string \<Rightarrow> string option"

definition record_event :: "event \<Rightarrow> scraper_state \<Rightarrow> scraper_state" where
  "record_event ev st = st\<lparr>events := events st @ [ev]\<rparr>"

definition can_fetch :: "scraper_env \<Rightarrow> string \<Rightarrow> scraper_state \<Rightarrow> bool \<times> scraper_state" where
  "can_fetch env u st =
     (case urlparse_base env u of
        Inl e \<Rightarrow> (True, st)
      | Inr base_url \<Rightarrow>
          (let st1 = record_event (CacheLookup base_url) st
           in case robots_cache st1 base_url of
                Some allowed \<Rightarrow> (allowed, st1)
              | None \<Rightarrow>
                  (let st2 = record_event (RobotsRead base_url) st1
                   in case robots_can_fetch env base_url u of
                        Inr allowed \<Rightarrow>
                          (allowed, st2\<lparr>robots_cache := (robots_cache st2)(base_url \<mapsto> allowed)\<rparr>)
                      | Inl e \<Rightarrow>
                          (True, st2\<lparr>robots_cache := (robots_cache st2)(base_url \<mapsto> True)\<rparr>))))"

definition newline :: char where
  "newline = CHR 0x0A"

definition py_strip :: "string \<Rightarrow> string" where
  "py_strip s = rev (dropWhile py_isspace (rev (dropWhile py_isspace s)))"

text \<open>\<open>re.sub(r'\n{3,}', '\n\n', content)\<close>; \<open>k\<close> newlines have been read and not yet
  written.\<close>

definition emit_newlines :: "nat \<Rightarrow> string" where
  "emit_newlines k = (if 3 \<le> k then [newline, newline] else replicate k newline)"

fun collapse_newlines :: "string \<Rightarrow> nat \<Rightarrow> string" where
  "collapse_newlines [] k = emit_newlines k"
| "collapse_newlines (c # cs) k =
     (if c = newline then collapse_newlines cs (Suc k)
      else emit_newlines k @ c # collapse_newlines cs 0)"

text \<open>\<open>s.split(sep)\<close> for a non-empty separator, and \<open>sep.join(parts)\<close>.\<close>

fun split_on :: "string \<Rightarrow> nat \<Rightarrow> string \<Rightarrow> string \<Rightarrow> string list" where
  "split_on sep skip [] cur = [cur]"
| "split_on sep skip (c # cs) cur =
     (if 0 < skip then split_on sep (skip - 1) cs cur
      else if prefix sep (c # cs) then cur # split_on sep (length sep - 1) cs []
      else split_on sep 0 cs (cur @ [c]))"

fun py_join :: "string \<Rightarrow> string list \<Rightarrow> string" where
  "py_join sep [] = []"
| "py_join sep [x] = x"
| "py_join sep (x # y # ys) = x @ sep @ py_join sep (y # ys)"

fun unique_paragraphs :: "string list \<Rightarrow> string list \<Rightarrow> string list" where
  "unique_paragraphs [] seen = seen"
| "unique_paragraphs (p # ps) seen =
     (if p \<notin> set seen then unique_paragraphs ps (seen @ [p]) else unique_paragraphs ps seen)"

definition clean_content :: "string \<Rightarrow> string" where
  "clean_content c =
     (if c = [] then []
      else
        (let c1 = collapse_newlines c 0;
             lines = split_on [newline] 0 c1 [];
             kept = filter (\<lambda>line. 2 < length (py_strip line) \<or> py_strip line = []) lines;
             c2 = py_join [newline] kept;
             paragraphs = split_on [newline, newline] 0 c2 []
         in py_join [newline, newline] (unique_paragraphs paragraphs [])))"

definition robots_sentinel :: string where
  "robots_sentinel =
     ''[Access to this content is restricted by the website's robots.txt policy]''"

text \<open>
  \<open>scrape\<close>: \<open>None\<close> is Python's \<open>None\<close>, for the argument and for the result.  Nothing
  after the guard raises (each helper catches its own exceptions), so the outer
  \<open>except\<close> has no branch here.
\<close>

definition scrape ::
  "scraper_env \<Rightarrow> string option \<Rightarrow> scraper_state \<Rightarrow> string option \<times> scraper_state" where
  "scrape env url_arg st =
     (case url_arg of
        None \<Rightarrow> (None, st)
      | Some u \<Rightarrow>
          if u = [] \<or> \<not> (prefix ''http://'' u \<or> prefix ''https://'' u) then (None, st)
          else
            (case (if respect_robots env then can_fetch env u st else (True, st)) of
               (allowed, st1) \<Rightarrow>
                 if \<not> allowed then (Some robots_sentinel, st1)
                 else
                   (let c1 = scrape_with_newspaper env u;
                        st2 = record_event (NewspaperFetch u) st1;
                        retry = (case c1 of
                                   None \<Rightarrow> True
                                 | Some t \<Rightarrow> t = [] \<or> length (py_strip t) < 100);
                        c2 = (if retry then scrape_with_beautifulsoup env u else c1);
                        st3 = (if retry then record_event (HttpFetch u) st2 else st2)
                    in (case c2 of
                          None \<Rightarrow> (None, st3)
                        | Some t \<Rightarrow> (if t = [] then Some [] else Some (clean_content t), st3)))))"

section \<open>Response generator\<close>

definition quoted :: "string \<Rightarrow> string" where
  "quoted s = CHR 0x27 # s @ [CHR 0x27]"

text \<open>
  The dictionaries with the keys \<open>summary\<close>, \<open>detailed_response\<close>, \<open>highlights\<close>: an
  \<open>answer\<close>.  The response generator's result may add \<open>source_evaluation\<close>; the
  agent's result adds the keys of \<open>research_result\<close> below.  \<open>None\<close>: the key is absent.
\<close>

record answer =
  summary :: json
  detailed_response :: "json option"
  highlights :: "json option"

record response = answer +
  source_evaluation :: "json option"

datatype role = User | Assistant

type_synonym turn = "role \<times> json"

text \<open>
  \<open>_create_synthesis_prompt\<close> runs before the \<open>try\<close> of \<open>_get_llm_synthesis\<close>.  With
  more than one turn it slices the content of the last six,
  \<open>msg['content'][:100]\<close>, which raises unless the content is a string or a list.
\<close>

definition sliceable :: "json \<Rightarrow> bool" where
  "sliceable v = (case v of JStr s \<Rightarrow> True | JArr xs \<Rightarrow> True | _ \<Rightarrow> False)"

definition create_synthesis_prompt_raises :: "turn list \<Rightarrow> bool" where
  "create_synthesis_prompt_raises conversation_history =
     (1 < length conversation_history \<and>
      (let recent_history =
             (if 6 < length conversation_history
              then drop (length conversation_history - 6) conversation_history
              else conversation_history)
       in \<exists>msg\<in>set recent_history. \<not> sliceable (snd msg)))"

definition parse_failure_summary :: "string \<Rightarrow> string" where
  "parse_failure_summary query =
     ''Based on my research about '' @ quoted query @
     '', I found relevant information but encountered an error formatting it. '' @
     ''The information appears to support answering your question, '' @
     ''but I need to present it differently.''"

definition call_failure_summary :: "string \<Rightarrow> string" where
  "call_failure_summary query =
     ''I encountered an error while researching '' @ quoted query @
     ''. Please try rephrasing your question or try again later.''"

definition generate_failure_summary :: "string \<Rightarrow> string" where
  "generate_failure_summary query =
     ''I found information about '' @ quoted query @
     '', but encountered an error while synthesizing a response. '' @
     ''Please try rephrasing your question or being more specific.''"

definition call_failure_fallback :: "string \<Rightarrow> exn \<Rightarrow> json" where
  "call_failure_fallback query e =
     JObj [(''summary'', JStr (call_failure_summary query)),
           (''detailed_response'', JStr (''Error processing your request: '' @ exn_str e)),
           (''highlights'', JArr [])]"

definition get_llm_synthesis :: "(string \<Rightarrow> exn + json) \<Rightarrow> exn + string \<Rightarrow> string \<Rightarrow> json" where
  "get_llm_synthesis decode llm query =
     (case llm of
        Inl e \<Rightarrow> call_failure_fallback query e
      | Inr result \<Rightarrow>
          (case decode result of
             Inl e \<Rightarrow> call_failure_fallback query e
           | Inr data \<Rightarrow>
               if data \<noteq> JNull then data
               else JObj [(''summary'', JStr (parse_failure_summary query)),
                          (''detailed_response'', JStr result),
                          (''highlights'', JArr [])]))"

definition generate_fallback :: "string \<Rightarrow> response" where
  "generate_fallback query =
     \<lparr>summary = JStr (generate_failure_summary query),
      detailed_response = Some (JStr []),
      highlights = Some (JArr []),
      source_evaluation = None\<rparr>"

text \<open>\<open>synthesis_result.get\<close> raises \<open>AttributeError\<close> unless the value is a \<open>dict\<close>;
  the \<open>except\<close> of \<open>generate\<close> catches that and the prompt's exception.\<close>

definition generate ::
  "(string \<Rightarrow> exn + json) \<Rightarrow> exn + string \<Rightarrow> string \<Rightarrow> query_analysis \<Rightarrow> item list
    \<Rightarrow> turn list \<Rightarrow> response" where
  "generate decode llm query qa filtered_content conversation_history =
     (if create_synthesis_prompt_raises conversation_history then generate_fallback query
      else (case get_llm_synthesis decode llm query of
              JObj kvs \<Rightarrow>
                \<lparr>summary = dict_get_default kvs ''summary'' (JStr []),
                 detailed_response = Some (dict_get_default kvs ''detailed_response'' (JStr [])),
                 highlights = Some (dict_get_default kvs ''highlights'' (JArr [])),
                 source_evaluation = Some (dict_get_default kvs ''source_evaluation'' (JObj []))\<rparr>
            | _ \<Rightarrow> generate_fallback query))"

section \<open>Error handler\<close>

record research_result = answer +
  query :: string
  analysis :: "query_analysis option"
  sources :: "source list"
  success :: bool
  error_type :: "string option"
  message :: "string option"

definition error_messages :: "(string \<times> string) list" where
  "error_messages =
     [(''ConnectionError'',
         ''I couldn't connect to some websites. '' @
         ''This might be due to network issues or website restrictions.''),
      (''Timeout'', ''Some websites took too long to respond. Please try again later.''),
      (''JSONDecodeError'', ''I had trouble processing some of the data I retrieved.''),
      (''ValueError'', ''I encountered an unexpected value while processing your request.''),
      (''KeyError'', ''Some expected data was missing while processing your request.''),
      (''AttributeError'',
         ''I encountered an issue with one of the components while processing your request.''),
      (''LLMProviderError'',
         ''There was an issue with the AI service that powers my research capabilities.'')]"

definition error_message :: "exn \<Rightarrow> string" where
  "error_message e =
     (case map_of error_messages (exn_type e) of
        Some m \<Rightarrow> m
      | None \<Rightarrow>
          if sublist ''api_key'' (py_lower (exn_str e)) \<or> sublist ''apikey'' (py_lower (exn_str e))
          then ''There was an authentication issue with one of the services I use. '' @
               ''Please check API key configurations.''
          else if sublist ''permission'' (py_lower (exn_str e)) \<or>
                  sublist ''access'' (py_lower (exn_str e))
          then ''I don't have permission to access some content needed for your request.''
          else ''I encountered an unexpected error while processing your request. '' @
               ''Please try again or rephrase your query.'')"

definition handle_error :: "exn \<Rightarrow> string \<Rightarrow> research_result" where
  "handle_error e q =
     (let m = error_message e @ (if q \<noteq> [] then '' Your query was: '' @ quoted q else [])
      in \<lparr>summary = JStr m, detailed_response = None, highlights = None,
          query = q, analysis = None, sources = [], success = False,
          error_type = Some (exn_type e), message = Some m\<rparr>)"

section \<open>Research agent\<close>

text \<open>
  The agent calls its five components through their public methods, which the tests
  replace by mocks.  A component here is any state-passing function on a world \<open>'w\<close>
  that returns its result or the exception it raises.
\<close>

record 'w components =
  query_analyzer_analyze :: "string \<Rightarrow> turn list \<Rightarrow> 'w \<Rightarrow> (exn + query_analysis) \<times> 'w"
  search_tool_search :: "string list \<Rightarrow> string \<Rightarrow> int \<Rightarrow> 'w \<Rightarrow> (exn + candidate list) \<times> 'w"
  scraper_scrape :: "string \<Rightarrow> 'w \<Rightarrow> (exn + string option) \<times> 'w"
  content_analyzer_analyze :: "query_analysis \<Rightarrow> item list \<Rightarrow> 'w \<Rightarrow> (exn + item list) \<times> 'w"
  response_generator_generate ::
    "string \<Rightarrow> query_analysis \<Rightarrow> item list \<Rightarrow> turn list \<Rightarrow> 'w \<Rightarrow> (exn + response) \<times> 'w"

record 'w agent =
  conversation_history :: "turn list"
  world :: 'w

definition no_results_message :: "string \<Rightarrow> string" where
  "no_results_message q =
     ''I couldn't find any information about '' @ quoted q @
     ''. Could you try rephrasing your question or providing more details?''"

definition no_content_message :: string where
  "no_content_message =
     ''I found some relevant sources, but couldn't extract their content. '' @
     ''This might be due to access restrictions or complex page structures.''"

definition append_turn :: "turn \<Rightarrow> 'w agent \<Rightarrow> 'w agent" where
  "append_turn t ag = ag\<lparr>conversation_history := conversation_history ag @ [t]\<rparr>"

definition handle_no_results ::
  "string \<Rightarrow> query_analysis \<Rightarrow> 'w agent \<Rightarrow> research_result \<times> 'w agent" where
  "handle_no_results q qa ag =
     (\<lparr>summary = JStr (no_results_message q), detailed_response = None, highlights = None,
       query = q, analysis = Some qa, sources = [], success = False,
       error_type = Some ''no_results'', message = None\<rparr>,
      append_turn (Assistant, JStr (no_results_message q)) ag)"

definition handle_no_content ::
  "string \<Rightarrow> query_analysis \<Rightarrow> candidate list \<Rightarrow> 'w agent \<Rightarrow> research_result \<times> 'w agent" where
  "handle_no_content q qa search_results ag =
     (\<lparr>summary = JStr no_content_message, detailed_response = None, highlights = None,
       query = q, analysis = Some qa,
       sources = map (\<lambda>r. \<lparr>url = url r, title = title r\<rparr>) search_results,
       success = False, error_type = Some ''extraction_failed'', message = None\<rparr>,
      append_turn (Assistant, JStr no_content_message) ag)"

text \<open>The \<open>except\<close> of \<open>research\<close>.\<close>

definition research_failed :: "exn \<Rightarrow> string \<Rightarrow> 'w agent \<Rightarrow> research_result \<times> 'w agent" where
  "research_failed e q ag =
     (let error_response = handle_error e q
      in (error_response, append_turn (Assistant, summary error_response) ag))"

text \<open>The scraping loop: an exception of \<open>scrape\<close> is logged and the loop goes on; a
  result is kept when the content is truthy.\<close>

fun scrape_all :: "'w components \<Rightarrow> candidate list \<Rightarrow> 'w \<Rightarrow> item list \<times> 'w" where
  "scrape_all comps [] w = ([], w)"
| "scrape_all comps (result # results) w =
     (case scraper_scrape comps (url result) w of
        (Inr (Some c), w1) \<Rightarrow>
          (case scrape_all comps results w1 of
             (all_content, w2) \<Rightarrow>
               (if c \<noteq> []
                then \<lparr>url = url result, title = title result, metadata = metadata result,
                      content = c, published_date = None, relevance_score = None,
                      relevance_reason = None\<rparr> # all_content
                else all_content, w2))
      | (_, w1) \<Rightarrow> scrape_all comps results w1)"

definition research :: "'w components \<Rightarrow> string \<Rightarrow> 'w agent \<Rightarrow> research_result \<times> 'w agent" where
  "research comps q ag0 =
     (let ag = append_turn (User, JStr q) ag0
      in case query_analyzer_analyze comps q (conversation_history ag) (world ag) of
           (Inl e, w1) \<Rightarrow> research_failed e q (ag\<lparr>world := w1\<rparr>)
         | (Inr qa, w1) \<Rightarrow>
             (case search_tool_search comps (search_terms qa) (query_type qa)
                     (case result_limit qa of None \<Rightarrow> 5 | Some l \<Rightarrow> l) w1 of
                (Inl e, w2) \<Rightarrow> research_failed e q (ag\<lparr>world := w2\<rparr>)
              | (Inr search_results, w2) \<Rightarrow>
                  if search_results = [] then handle_no_results q qa (ag\<lparr>world := w2\<rparr>)
                  else
                    (case scrape_all comps search_results w2 of
                       (all_content, w3) \<Rightarrow>
                         if all_content = []
                         then handle_no_content q qa search_results (ag\<lparr>world := w3\<rparr>)
                         else
                           (case content_analyzer_analyze comps qa all_content w3 of
                              (Inl e, w4) \<Rightarrow> research_failed e q (ag\<lparr>world := w4\<rparr>)
                            | (Inr filtered_content, w4) \<Rightarrow>
                                (case response_generator_generate comps q qa filtered_content
                                        (conversation_history ag) w4 of
                                   (Inl e, w5) \<Rightarrow> research_failed e q (ag\<lparr>world := w5\<rparr>)
                                 | (Inr resp, w5) \<Rightarrow>
                                     (\<lparr>summary = summary resp,
                                       detailed_response =
                                         Some (case detailed_response resp of
                                                 None \<Rightarrow> JStr [] | Some v \<Rightarrow> v),
                                       highlights =
                                         Some (case highlights resp of
                                                 None \<Rightarrow> JArr [] | Some v \<Rightarrow> v),
                                       query = q, analysis = Some qa,
                                       sources =
                                         map (\<lambda>it. \<lparr>url = url it, title = title it\<rparr>)
                                           filtered_content,
                                       success = True, error_type = None, message = None\<rparr>,
                                      append_turn (Assistant, summary resp)
                                        (ag\<lparr>world := w5\<rparr>)))))))"

definition reset_conversation :: "'w agent \<Rightarrow> string \<times> 'w agent" where
  "reset_conversation ag =
     (''Conversation history has been reset.'', ag\<lparr>conversation_history := []\<rparr>)"

text \<open>A session: one \<open>research\<close> call per query, in order.\<close>

fun research_all :: "'w components \<Rightarrow> string list \<Rightarrow> 'w agent \<Rightarrow> 'w agent" where
  "research_all comps [] ag = ag"
| "research_all comps (q # qs) ag = research_all comps qs (snd (research comps q ag))"

section \<open>Notions used in the statements and proofs\<close>

text \<open>What \<open>_basic_text_filter\<close> leaves in the store for one item.\<close>

definition mark_item :: "(string \<Rightarrow> int option) \<Rightarrow> query_analysis \<Rightarrow> item \<Rightarrow> item" where
  "mark_item days_old qa it =
     (if threshold < score_item days_old qa it
      then it\<lparr>relevance_score := Some (JInt (min 98 (score_item days_old qa it)))\<rparr>
      else it)"

definition survivors :: "(string \<Rightarrow> int option) \<Rightarrow> query_analysis \<Rightarrow> item list \<Rightarrow> nat list" where
  "survivors days_old qa st =
     filter (\<lambda>i. threshold < score_item days_old qa (st ! i)) [0..<length st]"

text \<open>An item carries no score, or a number between 0 and 98.\<close>

definition score_in_range :: "item \<Rightarrow> bool" where
  "score_in_range it =
     (case relevance_score it of
        None \<Rightarrow> True
      | Some (JInt n) \<Rightarrow> 0 \<le> n \<and> n \<le> 98
      | Some (JFloat r) \<Rightarrow> 0 \<le> r \<and> r \<le> 98
      | Some _ \<Rightarrow> False)"

text \<open>The generative call raised, the decoder raised, or no JSON was found.\<close>

definition call_or_parse_failed :: "(string \<Rightarrow> exn + json) \<Rightarrow> exn + string \<Rightarrow> bool" where
  "call_or_parse_failed decode llm =
     (case llm of
        Inl e \<Rightarrow> True
      | Inr result \<Rightarrow> (case decode result of Inl e \<Rightarrow> True | Inr data \<Rightarrow> data = JNull))"

text \<open>A ranking entry the first loop of \<open>_llm_relevance_ranking\<close> gets through: a
  \<open>dict\<close> whose \<open>id\<close> is absent, \<open>null\<close>, a \<open>bool\<close>, an \<open>int\<close>, or a \<open>float\<close> outside the
  index range.\<close>

definition well_formed_rank :: "nat \<Rightarrow> json \<Rightarrow> bool" where
  "well_formed_rank n rank =
     (case rank of JObj kvs \<Rightarrow> \<not> isl (id_index (dict_get kvs ''id'') n) | _ \<Rightarrow> False)"

text \<open>An extraction that gives the agent nothing: \<open>None\<close>, an empty text, or an
  exception.\<close>

definition extraction_none :: "exn + string option \<Rightarrow> bool" where
  "extraction_none x = (case x of Inr (Some c) \<Rightarrow> c = [] | _ \<Rightarrow> True)"

text \<open>Every extraction of one call gives nothing: the scraper is asked for each search
  result in turn, each time in the world the call has reached.\<close>

fun all_extractions_none :: "'w components \<Rightarrow> candidate list \<Rightarrow> 'w \<Rightarrow> bool" where
  "all_extractions_none comps [] w = True"
| "all_extractions_none comps (result # results) w =
     (case scraper_scrape comps (url result) w of
        (x, w1) \<Rightarrow> extraction_none x \<and> all_extractions_none comps results w1)"

definition invalid_url :: "string option \<Rightarrow> bool" where
  "invalid_url url_arg =
     (case url_arg of
        None \<Rightarrow> True
      | Some u \<Rightarrow> u = [] \<or> \<not> (prefix ''http://'' u \<or> prefix ''https://'' u))"

text \<open>The indices the first loop of \<open>_llm_relevance_ranking\<close> reads, in order.\<close>

definition ranked_indices :: "nat \<Rightarrow> json list \<Rightarrow> nat list" where
  "ranked_indices n rankings =
     concat (map (\<lambda>rank. case rank of
                            JObj kvs \<Rightarrow>
                              (case id_index (dict_get kvs ''id'') n of
                                 Inr (Some k) \<Rightarrow> [k]
                               | _ \<Rightarrow> [])
                          | _ \<Rightarrow> []) rankings)"

text \<open>An entry of the default ranking; what a ranking entry writes into an item, and
  what the default entry at index \<open>i\<close> writes.\<close>

definition default_entry :: "nat \<Rightarrow> json" where
  "default_entry i = JObj [(''id'', JInt (int i)), (''relevance_score'', JInt (10 - int i))]"

definition write_rank :: "(string \<times> json) list \<Rightarrow> item \<Rightarrow> item" where
  "write_rank kvs it =
     it\<lparr>relevance_score := Some (dict_get_default kvs ''relevance_score'' (JInt 0)),
        relevance_reason := Some (dict_get_default kvs ''reason'' (JStr []))\<rparr>"

definition write_default :: "nat \<Rightarrow> item \<Rightarrow> item" where
  "write_default i it =
     it\<lparr>relevance_score := Some (JInt (10 - int i)), relevance_reason := Some (JStr [])\<rparr>"

section \<open>Concrete inputs\<close>

text \<open>The set-up of the agent's tests: every component is a mock with a fixed return
  value.  The query analysis is the analyzer's fallback analysis.\<close>

definition fallback_analysis :: "string \<Rightarrow> query_analysis" where
  "fallback_analysis q =
     \<lparr>query_type = ''factual'', topics = [], search_terms = [q], time_sensitivity = ''any'',
      required_depth = ''standard'', result_limit = Some 5\<rparr>"

definition test_result :: candidate where
  "test_result =
     \<lparr>url = ''https://example.com'', title = ''Test Result'', metadata = JObj [],
      snippet = ''Test snippet''\<rparr>"

definition test_response :: response where
  "test_response =
     \<lparr>summary = JStr ''Test summary of the research.'',
      detailed_response = Some (JStr ''Detailed research response.''),
      highlights = Some (JArr [JStr ''Key point 1'', JStr ''Key point 2'']),
      source_evaluation = None\<rparr>"

definition mock_components :: "exn + candidate list \<Rightarrow> exn + string option \<Rightarrow> unit components" where
  "mock_components search_return scrape_return =
     \<lparr>query_analyzer_analyze = (\<lambda>q h w. (Inr (fallback_analysis q), w)),
      search_tool_search = (\<lambda>terms qtype limit w. (search_return, w)),
      scraper_scrape = (\<lambda>u w. (scrape_return, w)),
      content_analyzer_analyze = (\<lambda>qa items w. (Inr items, w)),
      response_generator_generate = (\<lambda>q qa items h w. (Inr test_response, w))\<rparr>"

definition new_agent :: "unit agent" where
  "new_agent = \<lparr>conversation_history = [], world = ()\<rparr>"

text \<open>A scraper whose every host disallows robots and whose fetches find nothing.\<close>

definition offline_env :: scraper_env where
  "offline_env =
     \<lparr>respect_robots = True,
      urlparse_base = (\<lambda>u. Inr (take 19 u)),
      robots_can_fetch = (\<lambda>base_url u. Inr False),
      scrape_with_newspaper = (\<lambda>u. None),
      scrape_with_beautifulsoup = (\<lambda>u. None)\<rparr>"

definition new_scraper :: scraper_state where
  "new_scraper = \<lparr>robots_cache = Map.empty, events = []\<rparr>"

text \<open>A backend that fails on the term \<open>down\<close> and answers every other term with
  one page of its own and one page shared by all terms.\<close>

definition mk_candidate :: "string \<Rightarrow> candidate" where
  "mk_candidate u = \<lparr>url = u, title = ''Result'', metadata = JObj [], snippet = []\<rparr>"

definition flaky_backend :: backend where
  "flaky_backend term is_news_query =
     (if term = ''down'' then Inl (Exn ''ConnectionError'' ''unreachable'')
      else Inr [mk_candidate (''https://example.com/'' @ term),
                mk_candidate ''https://example.com/shared''])"

text \<open>A decoder that finds no JSON in any text.\<close>

definition no_json :: "string \<Rightarrow> exn + json" where
  "no_json raw_text = Inr JNull"

text \<open>Pages about cats for the query \<open>cats\<close>, without dates; a clock under which no
  date parses and one under which every date is 30 days old; a decoder that returns a
  fixed value.\<close>

definition no_dates :: "string \<Rightarrow> int option" where
  "no_dates d = None"

definition thirty_days :: "string \<Rightarrow> int option" where
  "thirty_days d = Some 30"

text \<open>Two readings of the clock a day apart, and two pages of which the first has a
  date: it mentions cats once, in its content only.\<close>

definition day_89 :: "string \<Rightarrow> int option" where
  "day_89 d = Some 89"

definition day_90 :: "string \<Rightarrow> int option" where
  "day_90 d = Some 90"

definition dated_pages :: "item list" where
  "dated_pages =
     [\<lparr>url = ''https://example.com/dated'', title = ''Dogs'', metadata = JObj [],
       content = ''cats'', published_date = Some ''2024-01-15'', relevance_score = None,
       relevance_reason = None\<rparr>,
      \<lparr>url = ''https://example.com/undated'', title = ''Cats'', metadata = JObj [],
       content = ''cats'', published_date = None, relevance_score = None,
       relevance_reason = None\<rparr>]"

definition decode_to :: "json \<Rightarrow> string \<Rightarrow> exn + json" where
  "decode_to v raw_text = Inr v"

definition page :: "string \<Rightarrow> string \<Rightarrow> item" where
  "page n c =
     \<lparr>url = ''https://example.com/'' @ n, title = ''Cats'', metadata = JObj [], content = c,
      published_date = None, relevance_score = None, relevance_reason = None\<rparr>"

definition four_pages :: "item list" where
  "four_pages = [page ''0'' ''cats'', page ''1'' ''cats cats'', page ''2'' [],
                 page ''3'' ''cats cats cats'']"

definition eleven_pages :: "item list" where
  "eleven_pages =
     [page ''p0'' [], page ''p1'' ''cats'', page ''p2'' ''cats'', page ''p3'' ''cats'',
      page ''p4'' ''cats'', page ''p5'' ''cats'', page ''p6'' ''cats'', page ''p7'' ''cats'',
      page ''p8'' ''cats'', page ''p9'' ''cats'', page ''p10'' ''cats'']"

definition cats :: query_analysis where
  "cats = fallback_analysis ''cats''"

definition score_100 :: json where
  "score_100 = JArr [JObj [(''id'', JInt 0), (''relevance_score'', JInt 100)]]"

definition string_id :: json where
  "string_id = JArr [JObj [(''id'', JStr ''0''), (''relevance_score'', JInt 90)]]"

definition third_first :: json where
  "third_first = JObj [(''rankings'', JArr [JObj [(''id'', JInt 2), (''relevance_score'', JInt 90)]])]"

text \<open>The data of the content analyzer's test of \<open>_basic_text_filter\<close>.\<close>

definition ai_query :: query_analysis where
  "ai_query =
     \<lparr>query_type = ''factual'',
      topics = [''artificial intelligence'', ''machine learning''],
      search_terms = [''AI applications'', ''neural networks''],
      time_sensitivity = ''any'', required_depth = ''standard'', result_limit = None\<rparr>"

definition ai_item :: "string \<Rightarrow> string \<Rightarrow> string \<Rightarrow> item" where
  "ai_item u t c =
     \<lparr>url = u, title = t, metadata = JObj [], content = c, published_date = None,
      relevance_score = None, relevance_reason = None\<rparr>"

definition ai_items :: "item list" where
  "ai_items =
     [ai_item ''https://example.com/ai'' ''Introduction to AI''
        (''Artificial intelligence is a field focused on '' @
         ''creating intelligent machines.''),
      ai_item ''https://example.com/cooking'' ''Cooking Tips''
        ''How to make delicious pasta dishes with minimal effort.'',
      ai_item ''https://example.com/neural'' ''Neural Networks Explained''
        (''Neural networks are computing systems inspired by '' @
         ''biological neural networks.'')]"

section \<open>Research agent: history and short circuits\<close>

lemma append_turn_history [simp]:
  "conversation_history (append_turn t ag) = conversation_history ag @ [t]"
  by (simp add: append_turn_def)

lemma append_turn_world [simp]: "world (append_turn t ag) = world ag"
  by (simp add: append_turn_def)

lemma research_history:
  "conversation_history (snd (research comps q ag)) =
     conversation_history ag @ [(User, JStr q), (Assistant, summary (fst (research comps q ag)))]"
  by (simp add: research_def Let_def research_failed_def handle_no_results_def handle_no_content_def
       split: prod.splits sum.splits)

lemma research_all_length:
  "length (conversation_history (research_all comps qs ag)) =
     length (conversation_history ag) + 2 * length qs"
  by (induction qs arbitrary: ag) (simp_all add: research_history)

lemma scrape_all_classifier [simp]:
  "scrape_all (comps\<lparr>query_analyzer_analyze := g\<rparr>) results w = scrape_all comps results w"
  by (induction results arbitrary: w) (simp_all split: prod.splits sum.splits option.splits)

lemma classifier_sees_user_turn:
  "research (comps\<lparr>query_analyzer_analyze := f\<rparr>) q ag =
   research (comps\<lparr>query_analyzer_analyze :=
               (\<lambda>q' h w. f q (conversation_history ag @ [(User, JStr q)]) (world ag))\<rparr>) q ag"
  by (simp add: research_def Let_def cong: prod.case_cong sum.case_cong if_cong)

text \<open>
  C3.  Every \<open>research\<close> call, whatever its components return or raise, extends the
  history by exactly two turns: the user turn with the query, which is already there
  when the classifier is called, and one assistant turn with the summary or failure
  message of the result.  Hence a session of \<open>N\<close> calls on a fresh agent leaves \<open>2N\<close>
  turns, and \<open>reset_conversation\<close> leaves none.
\<close>

theorem history_two_turns_per_call:
  "conversation_history (snd (research comps q ag)) =
     conversation_history ag @ [(User, JStr q), (Assistant, summary (fst (research comps q ag)))] \<and>
   research (comps\<lparr>query_analyzer_analyze := f\<rparr>) q ag =
     research (comps\<lparr>query_analyzer_analyze :=
                 (\<lambda>q' h w. f q (conversation_history ag @ [(User, JStr q)]) (world ag))\<rparr>) q ag \<and>
   length (conversation_history
             (research_all comps qs \<lparr>conversation_history = [], world = w0\<rparr>)) = 2 * length qs \<and>
   conversation_history (snd (reset_conversation ag)) = []"
  using research_history [where comps = comps and q = q and ag = ag]
    classifier_sees_user_turn [where comps = comps and f = f and q = q and ag = ag]
    research_all_length [where comps = comps and qs = qs
      and ag = "\<lparr>conversation_history = [], world = w0\<rparr>"]
  by (simp add: reset_conversation_def)

theorem history_two_turns_per_call_witness:
  "conversation_history
     (snd (research (mock_components (Inr [test_result]) (Inr (Some ''Test content'')))
             ''test query'' new_agent)) =
     [(User, JStr ''test query''), (Assistant, JStr ''Test summary of the research.'')] \<and>
   length (conversation_history
             (research_all (mock_components (Inr []) (Inr None)) [''one'', ''two'', ''three'']
                new_agent)) = 6 \<and>
   conversation_history
     (snd (reset_conversation
             (research_all (mock_components (Inr []) (Inr None)) [''one'', ''two'', ''three'']
                new_agent))) = []"
  using history_two_turns_per_call
          [where comps = "mock_components (Inr [test_result]) (Inr (Some ''Test content''))"
             and q = "''test query''" and ag = new_agent and qs = "[]" and ?w0.0 = "()"
             and f = "query_analyzer_analyze
                        (mock_components (Inr [test_result]) (Inr (Some ''Test content'')))"]
        history_two_turns_per_call
          [where comps = "mock_components (Inr []) (Inr None)" and q = "''q''"
             and ag = "research_all (mock_components (Inr []) (Inr None))
                         [''one'', ''two'', ''three''] new_agent"
             and f = "query_analyzer_analyze (mock_components (Inr []) (Inr None))"
             and qs = "[''one'', ''two'', ''three'']" and ?w0.0 = "()"]
  by (simp add: new_agent_def)
     (simp add: research_def Let_def mock_components_def fallback_analysis_def test_result_def
        test_response_def)

lemma scrape_all_empty_iff:
  "fst (scrape_all comps results w) = [] \<longleftrightarrow> all_extractions_none comps results w"
proof (induction results arbitrary: w)
  case Nil
  then show ?case by simp
next
  case (Cons c cs)
  obtain x w1 where sc: "scraper_scrape comps (url c) w = (x, w1)"
    by (cases "scraper_scrape comps (url c) w")
  obtain ys w2 where rest: "scrape_all comps cs w1 = (ys, w2)"
    by (cases "scrape_all comps cs w1")
  have ih: "ys = [] \<longleftrightarrow> all_extractions_none comps cs w1"
    using Cons [of w1] rest by simp
  show ?case
    using sc rest ih by (auto simp: extraction_none_def split: sum.splits option.splits)
qed

text \<open>
  C1 (amended).  When the search returns no candidate, the result has
  \<open>success = False\<close>, \<open>error_type = "no_results"\<close> and no sources.  When the search
  returns candidates and every extraction of the call gives nothing (\<open>None\<close>, an empty
  text or an exception, each in the state the call has reached), the result has
  \<open>success = False\<close>, \<open>error_type = "extraction_failed"\<close>, and its sources are the
  \<open>{url, title}\<close> pairs of the search results, in order.
\<close>

theorem research_short_circuits:
  assumes "query_analyzer_analyze comps q (conversation_history ag @ [(User, JStr q)]) (world ag)
             = (Inr qa, w1)"
    and "search_tool_search comps (search_terms qa) (query_type qa)
           (case result_limit qa of None \<Rightarrow> 5 | Some l \<Rightarrow> l) w1 = (Inr search_results, w2)"
  shows "(search_results = [] \<longrightarrow>
            success (fst (research comps q ag)) = False \<and>
            error_type (fst (research comps q ag)) = Some ''no_results'' \<and>
            sources (fst (research comps q ag)) = []) \<and>
         (search_results \<noteq> [] \<and> fst (scrape_all comps search_results w2) = [] \<longrightarrow>
            success (fst (research comps q ag)) = False \<and>
            error_type (fst (research comps q ag)) = Some ''extraction_failed'' \<and>
            sources (fst (research comps q ag)) =
              map (\<lambda>c. \<lparr>url = url c, title = title c\<rparr>) search_results) \<and>
         (fst (scrape_all comps search_results w2) = [] \<longleftrightarrow>
            all_extractions_none comps search_results w2)"
proof (intro conjI impI)
  assume "search_results = []"
  with assms show "success (fst (research comps q ag)) = False"
    "error_type (fst (research comps q ag)) = Some ''no_results''"
    "sources (fst (research comps q ag)) = []"
    by (simp_all add: research_def Let_def handle_no_results_def)
next
  assume a: "search_results \<noteq> [] \<and> fst (scrape_all comps search_results w2) = []"
  then obtain w3 where "scrape_all comps search_results w2 = ([], w3)"
    by (cases "scrape_all comps search_results w2") simp
  with a assms show "success (fst (research comps q ag)) = False"
    "error_type (fst (research comps q ag)) = Some ''extraction_failed''"
    "sources (fst (research comps q ag)) =
              map (\<lambda>c. \<lparr>url = url c, title = title c\<rparr>) search_results"
    by (simp_all add: research_def Let_def handle_no_content_def)
next
  show "fst (scrape_all comps search_results w2) = [] \<longleftrightarrow>
          all_extractions_none comps search_results w2"
    by (rule scrape_all_empty_iff)
qed

theorem research_short_circuits_witness:
  "error_type (fst (research (mock_components (Inr []) (Inr None)) ''test query'' new_agent))
     = Some ''no_results'' \<and>
   sources (fst (research (mock_components (Inr []) (Inr None)) ''test query'' new_agent)) = [] \<and>
   fst (scrape_all (mock_components (Inr [test_result]) (Inr None)) [test_result] ()) = [] \<and>
   error_type (fst (research (mock_components (Inr [test_result]) (Inr None)) ''test query'' new_agent))
     = Some ''extraction_failed'' \<and>
   sources (fst (research (mock_components (Inr [test_result]) (Inr None)) ''test query'' new_agent))
     = [\<lparr>url = ''https://example.com'', title = ''Test Result''\<rparr>]"
  using research_short_circuits [of "mock_components (Inr []) (Inr None)" "''test query''"
          new_agent "fallback_analysis ''test query''" "()" "[]" "()"]
        research_short_circuits [of "mock_components (Inr [test_result]) (Inr None)" "''test query''"
          new_agent "fallback_analysis ''test query''" "()" "[test_result]" "()"]
  by (simp add: mock_components_def new_agent_def fallback_analysis_def extraction_none_def
        test_result_def)

text \<open>The claim as stated asks for the kind \<open>"no_content"\<close>; with one candidate whose
  extraction returns \<open>None\<close>, the kind is another one.\<close>

theorem no_content_kind_counterexample:
  "fst (scrape_all (mock_components (Inr [test_result]) (Inr None)) [test_result] ()) = [] \<and>
   error_type (fst (research (mock_components (Inr [test_result]) (Inr None)) ''test query'' new_agent))
     \<noteq> Some ''no_content''"
  by (simp add: research_def Let_def mock_components_def new_agent_def fallback_analysis_def
        handle_no_content_def test_result_def append_turn_def)

section \<open>Failure messages\<close>

lemma sublist_quoted: "sublist q (a @ quoted q @ b)"
proof -
  have "a @ quoted q @ b = (a @ [CHR 0x27]) @ q @ (CHR 0x27 # b)"
    by (simp add: quoted_def)
  then show ?thesis
    unfolding sublist_def by blast
qed

lemma sublist_no_results_message: "sublist q (no_results_message q)"
  unfolding no_results_message_def by (rule sublist_quoted)

lemma sublist_handle_error: "\<exists>m. summary (handle_error e q) = JStr m \<and> sublist q m"
proof (cases "q = []")
  case True
  then show ?thesis by (simp add: handle_error_def Let_def)
next
  case False
  have "sublist q ((error_message e @ '' Your query was: '') @ quoted q @ [])"
    by (rule sublist_quoted)
  with False show ?thesis by (simp add: handle_error_def Let_def)
qed

lemma handle_error_failed:
  "success (handle_error e q) = False \<and> error_type (handle_error e q) = Some (exn_type e) \<and>
   (\<exists>m. summary (handle_error e q) = JStr m \<and> sublist q m)"
  using sublist_handle_error [of e q] by (simp add: handle_error_def Let_def)

text \<open>
  C4 (amended).  Path by path: when the classifier, the search, the content analyzer
  or the response generator raises \<open>e\<close>, the result is \<open>handle_error e q\<close>, which has
  \<open>success = False\<close> and a message that contains the query; when the search returns
  no candidate, the result has \<open>success = False\<close> and the message
  \<open>no_results_message q\<close>, which contains the query; when the search returns
  candidates and no content is extracted, the result has \<open>success = False\<close> and its
  message is one fixed sentence, the same for every query.
\<close>

theorem failure_message_references_query:
  "(\<forall>e w1.
      query_analyzer_analyze comps q (conversation_history ag @ [(User, JStr q)]) (world ag)
        = (Inl e, w1) \<longrightarrow>
      fst (research comps q ag) = handle_error e q) \<and>
   (\<forall>qa w1.
      query_analyzer_analyze comps q (conversation_history ag @ [(User, JStr q)]) (world ag)
        = (Inr qa, w1) \<longrightarrow>
      (\<forall>e w2.
         search_tool_search comps (search_terms qa) (query_type qa)
           (case result_limit qa of None \<Rightarrow> 5 | Some l \<Rightarrow> l) w1 = (Inl e, w2) \<longrightarrow>
         fst (research comps q ag) = handle_error e q) \<and>
      (\<forall>search_results w2.
         search_tool_search comps (search_terms qa) (query_type qa)
           (case result_limit qa of None \<Rightarrow> 5 | Some l \<Rightarrow> l) w1 = (Inr search_results, w2) \<longrightarrow>
         (search_results = [] \<longrightarrow>
            success (fst (research comps q ag)) = False \<and>
            summary (fst (research comps q ag)) = JStr (no_results_message q)) \<and>
         (search_results \<noteq> [] \<longrightarrow>
            (\<forall>all_content w3.
               scrape_all comps search_results w2 = (all_content, w3) \<longrightarrow>
               (all_content = [] \<longrightarrow>
                  success (fst (research comps q ag)) = False \<and>
                  summary (fst (research comps q ag)) = JStr no_content_message) \<and>
               (all_content \<noteq> [] \<longrightarrow>
                  (\<forall>e w4.
                     content_analyzer_analyze comps qa all_content w3 = (Inl e, w4) \<longrightarrow>
                     fst (research comps q ag) = handle_error e q) \<and>
                  (\<forall>filtered_content w4 e w5.
                     content_analyzer_analyze comps qa all_content w3
                       = (Inr filtered_content, w4) \<and>
                     response_generator_generate comps q qa filtered_content
                       (conversation_history ag @ [(User, JStr q)]) w4 = (Inl e, w5) \<longrightarrow>
                     fst (research comps q ag) = handle_error e q)))))) \<and>
   (\<forall>e. success (handle_error e q) = False \<and>
        error_type (handle_error e q) = Some (exn_type e) \<and>
        (\<exists>m. summary (handle_error e q) = JStr m \<and> sublist q m)) \<and>
   sublist q (no_results_message q)"
  using handle_error_failed [of _ q] sublist_no_results_message [of q]
  by (auto simp: research_def Let_def research_failed_def handle_no_results_def
        handle_no_content_def)

theorem failure_message_references_query_witness:
  "success (fst (research (mock_components (Inr []) (Inr None)) ''test query'' new_agent)) = False \<and>
   summary (fst (research (mock_components (Inr []) (Inr None)) ''test query'' new_agent)) =
     JStr (no_results_message ''test query'') \<and>
   sublist ''test query'' (no_results_message ''test query'') \<and>
   fst (research (mock_components (Inl (Exn ''TypeError'' ''bad limit'')) (Inr None))
          ''test query'' new_agent) = handle_error (Exn ''TypeError'' ''bad limit'') ''test query'' \<and>
   success (handle_error (Exn ''TypeError'' ''bad limit'') ''test query'') = False \<and>
   (\<exists>m. summary (handle_error (Exn ''TypeError'' ''bad limit'') ''test query'') = JStr m \<and>
        sublist ''test query'' m)"
  using failure_message_references_query
          [of "mock_components (Inr []) (Inr None)" "''test query''" new_agent]
        failure_message_references_query
          [of "mock_components (Inl (Exn ''TypeError'' ''bad limit'')) (Inr None)"
              "''test query''" new_agent]
  by (simp add: mock_components_def new_agent_def fallback_analysis_def)

lemma no_content_message_fixed: "\<not> sublist ''test query'' no_content_message"
  by code_simp

text \<open>The claim as stated fails on the zero-content path: the message is the fixed
  sentence, which does not contain the query.\<close>

theorem no_content_message_counterexample:
  "success (fst (research (mock_components (Inr [test_result]) (Inr None)) ''test query''
                   new_agent)) = False \<and>
   summary (fst (research (mock_components (Inr [test_result]) (Inr None)) ''test query''
                   new_agent)) = JStr no_content_message \<and>
   \<not> sublist ''test query'' no_content_message"
  using no_content_message_fixed
  by (simp add: research_def Let_def mock_components_def new_agent_def fallback_analysis_def
        handle_no_content_def test_result_def)

section \<open>Web scraper: the URL guard\<close>

text \<open>
  C10.  For a URL that is \<open>None\<close>, empty, or starts with neither \<open>http://\<close> nor
  \<open>https://\<close>, \<open>scrape\<close> returns \<open>None\<close> and leaves the scraper as it was: no cache
  lookup, no read of \<open>robots.txt\<close>, no fetch, no cache entry, and not the robots
  sentinel.
\<close>

theorem scrape_invalid_url:
  "invalid_url url_arg \<Longrightarrow>
     scrape env url_arg st = (None, st) \<and>
     events (snd (scrape env url_arg st)) = events st \<and>
     robots_cache (snd (scrape env url_arg st)) = robots_cache st \<and>
     fst (scrape env url_arg st) \<noteq> Some robots_sentinel"
  by (auto simp: invalid_url_def scrape_def split: option.splits)

theorem scrape_invalid_url_witness:
  "invalid_url (Some ''ftp://example.com'') \<and>
   scrape offline_env (Some ''ftp://example.com'') new_scraper = (None, new_scraper) \<and>
   invalid_url (Some ''not-a-url'') \<and>
   scrape offline_env (Some ''not-a-url'') new_scraper = (None, new_scraper) \<and>
   invalid_url None \<and>
   scrape offline_env None new_scraper = (None, new_scraper)"
  using scrape_invalid_url [of "Some ''ftp://example.com''" offline_env new_scraper]
    scrape_invalid_url [of "Some ''not-a-url''" offline_env new_scraper]
    scrape_invalid_url [of None offline_env new_scraper]
  by (simp add: invalid_url_def)

section \<open>Search tool: duplicates, limit, failing terms\<close>

lemma add_results_distinct:
  "distinct (map url results) \<Longrightarrow> distinct (map url (add_results term_results limit results))"
proof (induction term_results arbitrary: results)
  case Nil
  then show ?case by simp
next
  case (Cons a term_results)
  show ?case
  proof (cases "limit \<le> int (length results) \<or> (\<exists>r\<in>set results. url r = url a)")
    case True
    then show ?thesis using Cons by auto
  next
    case False
    then have "distinct (map url (results @ [a]))"
      using Cons.prems by auto
    then have "distinct (map url (add_results term_results limit (results @ [a])))"
      by (rule Cons.IH)
    with False show ?thesis by simp
  qed
qed

lemma add_results_length:
  "int (length (add_results term_results limit results)) \<le> max limit (int (length results))"
proof (induction term_results arbitrary: results)
  case Nil
  then show ?case by simp
next
  case (Cons a term_results)
  show ?case
  proof (cases "limit \<le> int (length results)")
    case True
    then show ?thesis by simp
  next
    case False
    have "int (length (add_results term_results limit (results @ [a])))
            \<le> max limit (int (length (results @ [a])))"
      by (rule Cons.IH)
    moreover have "int (length (add_results term_results limit results))
            \<le> max limit (int (length results))"
      by (rule Cons.IH)
    ultimately show ?thesis using False by auto
  qed
qed

lemma search_loop_distinct:
  "distinct (map url results) \<Longrightarrow> distinct (map url (search_loop backend terms n limit results))"
proof (induction terms arbitrary: results)
  case Nil
  then show ?case by simp
next
  case (Cons t ts)
  show ?case
  proof (cases "backend t n")
    case (Inl e)
    then show ?thesis using Cons by simp
  next
    case (Inr term_results)
    have "distinct (map url (add_results term_results limit results))"
      using Cons.prems by (rule add_results_distinct)
    then have "distinct (map url (search_loop backend ts n limit
                 (add_results term_results limit results)))"
      by (rule Cons.IH)
    with Inr Cons.prems show ?thesis by simp
  qed
qed

lemma search_loop_length:
  "int (length (search_loop backend terms n limit results)) \<le> max limit (int (length results))"
proof (induction terms arbitrary: results)
  case Nil
  then show ?case by simp
next
  case (Cons t ts)
  show ?case
  proof (cases "backend t n")
    case (Inl e)
    then show ?thesis using Cons [of results] by auto
  next
    case (Inr term_results)
    have "int (length (search_loop backend ts n limit (add_results term_results limit results)))
            \<le> max limit (int (length (add_results term_results limit results)))"
      by (rule Cons)
    also have "\<dots> \<le> max limit (int (length results))"
      using add_results_length [of term_results limit results] by simp
    finally show ?thesis using Inr by auto
  qed
qed

lemma search_loop_full:
  "limit \<le> int (length results) \<Longrightarrow> search_loop backend terms n limit results = results"
  by (cases terms) simp_all

lemma search_loop_skips_failures:
  "search_loop backend (filter (\<lambda>t. \<not> isl (backend t n)) terms) n limit results =
   search_loop backend terms n limit results"
proof (induction terms arbitrary: results)
  case Nil
  then show ?case by simp
next
  case (Cons t ts)
  show ?case
  proof (cases "limit \<le> int (length results)")
    case True
    then show ?thesis by (simp add: search_loop_full)
  next
    case False
    then show ?thesis using Cons by (cases "backend t n") simp_all
  qed
qed

text \<open>
  C7.  For every list of search terms and every positive limit, the result of \<open>search\<close>
  has pairwise different URLs and at most \<open>limit\<close> entries, and it is the result of
  searching only the terms whose backend call does not raise: a failing term is
  skipped, the loop goes on with the terms after it, and what the other terms found
  is kept.
\<close>

theorem search_distinct_bounded_resilient:
  "0 < l \<Longrightarrow>
     distinct (map url (search rl backend terms qtype (Some l))) \<and>
     int (length (search rl backend terms qtype (Some l))) \<le> l \<and>
     search rl backend terms qtype (Some l) =
       search rl backend (filter (\<lambda>t. \<not> isl (backend t (qtype = ''news''))) terms) qtype (Some l)"
proof (intro conjI)
  assume l: "0 < l"
  have d: "distinct (map url (search_loop backend terms (qtype = ''news'') l []))"
    by (rule search_loop_distinct) simp
  show "distinct (map url (search rl backend terms qtype (Some l)))"
    using l distinct_take [OF d, of "nat l"]
    by (simp add: search_def py_take_def Let_def take_map)
  show "int (length (search rl backend terms qtype (Some l))) \<le> l"
    using l by (auto simp: search_def py_take_def Let_def min_def)
  show "search rl backend terms qtype (Some l) =
       search rl backend (filter (\<lambda>t. \<not> isl (backend t (qtype = ''news''))) terms) qtype (Some l)"
    by (simp add: search_def Let_def search_loop_skips_failures)
qed


theorem search_distinct_bounded_resilient_witness:
  "map url (search 5 flaky_backend [''a'', ''down'', ''b''] ''factual'' (Some 3)) =
     [''https://example.com/a'', ''https://example.com/shared'', ''https://example.com/b''] \<and>
   isl (flaky_backend ''down'' False) \<and>
   search 5 flaky_backend [''a'', ''down'', ''b''] ''factual'' (Some 3) =
     search 5 flaky_backend [''a'', ''b''] ''factual'' (Some 3)"
  using search_distinct_bounded_resilient [of 3 5 flaky_backend "[''a'', ''down'', ''b'']" "''factual''"]
  by (simp add: search_def py_take_def flaky_backend_def mk_candidate_def)

section \<open>Response generator: the fallbacks\<close>

lemma sublist_call_failure_summary: "sublist q (call_failure_summary q)"
  unfolding call_failure_summary_def by (rule sublist_quoted)

lemma sublist_parse_failure_summary: "sublist q (parse_failure_summary q)"
  unfolding parse_failure_summary_def by (rule sublist_quoted)

lemma sublist_generate_failure_summary: "sublist q (generate_failure_summary q)"
  unfolding generate_failure_summary_def by (rule sublist_quoted)

lemma get_llm_synthesis_failed:
  "call_or_parse_failed decode llm \<Longrightarrow>
     get_llm_synthesis decode llm q =
       (case llm of
          Inl e \<Rightarrow> call_failure_fallback q e
        | Inr raw \<Rightarrow>
            (case decode raw of
               Inl e \<Rightarrow> call_failure_fallback q e
             | Inr data \<Rightarrow>
                 JObj [(''summary'', JStr (parse_failure_summary q)),
                       (''detailed_response'', JStr raw),
                       (''highlights'', JArr [])]))"
  by (auto simp: call_or_parse_failed_def get_llm_synthesis_def split: sum.splits)

text \<open>
  C5 (amended).  \<open>generate\<close> is total: it never raises.  When the generative call or
  the JSON decoding fails, its result has a summary that is a template containing the
  query and an empty list of highlights; \<open>detailed_response\<close> is the raw model text
  when a reply was obtained and no JSON could be decoded from it, the text
  \<open>Error processing your request: \<close> followed by the exception's message when the call
  or the decoder raised, and empty when the prompt could not be built.
\<close>

theorem generate_fallback_on_failure:
  "call_or_parse_failed decode llm \<Longrightarrow>
     (\<exists>m. summary (generate decode llm q qa filtered_content h) = JStr m \<and> sublist q m) \<and>
     highlights (generate decode llm q qa filtered_content h) = Some (JArr []) \<and>
     detailed_response (generate decode llm q qa filtered_content h) =
       Some (JStr (if create_synthesis_prompt_raises h then []
                   else (case llm of
                           Inl e \<Rightarrow> ''Error processing your request: '' @ exn_str e
                         | Inr raw \<Rightarrow>
                             (case decode raw of
                                Inl e \<Rightarrow> ''Error processing your request: '' @ exn_str e
                              | Inr data \<Rightarrow> raw))))"
  using sublist_call_failure_summary [of q] sublist_parse_failure_summary [of q]
    sublist_generate_failure_summary [of q]
  by (auto simp: generate_def get_llm_synthesis_failed generate_fallback_def
        call_failure_fallback_def dict_get_default_def split: sum.splits)

theorem generate_fallback_on_failure_witness:
  "call_or_parse_failed no_json (Inr ''plain text'') \<and>
   detailed_response
     (generate no_json (Inr ''plain text'') ''test query'' (fallback_analysis ''test query'') []
        [(User, JStr ''test query'')]) = Some (JStr ''plain text'') \<and>
   highlights
     (generate no_json (Inr ''plain text'') ''test query'' (fallback_analysis ''test query'') []
        [(User, JStr ''test query'')]) = Some (JArr []) \<and>
   summary
     (generate no_json (Inr ''plain text'') ''test query'' (fallback_analysis ''test query'') []
        [(User, JStr ''test query'')]) = JStr (parse_failure_summary ''test query'')"
  using generate_fallback_on_failure
          [of no_json "Inr ''plain text''" "''test query''" "fallback_analysis ''test query''" "[]"
              "[(User, JStr ''test query'')]"]
  by (simp add: call_or_parse_failed_def no_json_def create_synthesis_prompt_raises_def
        generate_def get_llm_synthesis_def dict_get_default_def)

text \<open>The claim as stated asks for an empty \<open>detailed_response\<close> when no model text was
  obtained; when the call raises, the field holds an error text.\<close>

theorem detailed_response_counterexample:
  "call_or_parse_failed no_json (Inl (Exn ''ConnectionError'' ''timed out'')) \<and>
   detailed_response
     (generate no_json (Inl (Exn ''ConnectionError'' ''timed out'')) ''test query''
        (fallback_analysis ''test query'') [] [(User, JStr ''test query'')]) =
     Some (JStr ''Error processing your request: timed out'') \<and>
   detailed_response
     (generate no_json (Inl (Exn ''ConnectionError'' ''timed out'')) ''test query''
        (fallback_analysis ''test query'') [] [(User, JStr ''test query'')]) \<noteq> Some (JStr [])"
  by (simp add: call_or_parse_failed_def create_synthesis_prompt_raises_def generate_def
        get_llm_synthesis_def call_failure_fallback_def dict_get_default_def)

section \<open>Content analyzer: what \<open>_basic_text_filter\<close> computes\<close>

lemma score_item_relevance_score [simp]:
  "score_item d qa (it\<lparr>relevance_score := x\<rparr>) = score_item d qa it"
  by (simp add: score_item_def)

lemma score_item_relevance_reason [simp]:
  "score_item d qa (it\<lparr>relevance_reason := x\<rparr>) = score_item d qa it"
  by (simp add: score_item_def)

lemma score_item_mark_item [simp]: "score_item d qa (mark_item d qa it) = score_item d qa it"
  by (simp add: mark_item_def)

lemma mark_item_idem [simp]: "mark_item d qa (mark_item d qa it) = mark_item d qa it"
  by (simp add: mark_item_def)

lemma mark_item_below [simp]:
  "\<not> threshold < score_item d qa it \<Longrightarrow> mark_item d qa it = it"
  by (simp add: mark_item_def)

lemma filter_loop_fold:
  "\<forall>i\<in>set is. i < length st \<Longrightarrow>
     filter_loop d qa is st acc =
       (fold (\<lambda>i s. s[i := mark_item d qa (s ! i)]) is st,
        acc @ filter (\<lambda>i. threshold < score_item d qa (st ! i)) is)"
proof (induction "is" arbitrary: st acc)
  case Nil
  then show ?case by simp
next
  case (Cons i "is")
  let ?st' = "st[i := mark_item d qa (st ! i)]"
  have i: "i < length st" and rest: "\<forall>j\<in>set is. j < length ?st'"
    using Cons.prems by simp_all
  have same: "\<And>j. score_item d qa (?st' ! j) = score_item d qa (st ! j)"
    using i by (simp add: nth_list_update)
  have ih: "filter_loop d qa is ?st' acc' =
       (fold (\<lambda>i s. s[i := mark_item d qa (s ! i)]) is ?st',
        acc' @ filter (\<lambda>i. threshold < score_item d qa (st ! i)) is)" for acc'
    using Cons.IH [OF rest, of acc'] by (simp add: same)
  show ?case
  proof (cases "threshold < score_item d qa (st ! i)")
    case True
    then have "?st' = st[i := (st ! i)\<lparr>relevance_score :=
                 Some (JInt (min 98 (score_item d qa (st ! i))))\<rparr>]"
      by (simp add: mark_item_def)
    with True ih [of "acc @ [i]"] show ?thesis by (simp add: Let_def)
  next
    case False
    then have "?st' = st" by simp
    with False ih [of acc] show ?thesis by (simp add: Let_def)
  qed
qed

lemma fold_update_upt:
  "n \<le> length st \<Longrightarrow>
     fold (\<lambda>i s. s[i := f (s ! i)]) [0..<n] st = map f (take n st) @ drop n st"
proof (induction n)
  case 0
  then show ?case by simp
next
  case (Suc n)
  then have n: "n < length st" by simp
  let ?s = "map f (take n st) @ drop n st"
  have len: "length (map f (take n st)) = n" using n by simp
  have nth: "?s ! n = st ! n"
    using n by (simp add: nth_append)
  have d: "drop n st = st ! n # drop (Suc n) st"
    using n by (simp add: Cons_nth_drop_Suc)
  have "?s[n := f (st ! n)] = map f (take n st) @ (drop n st)[0 := f (st ! n)]"
    using len by (simp add: list_update_append)
  also have "\<dots> = map f (take n st) @ f (st ! n) # drop (Suc n) st"
    by (subst d) simp
  also have "\<dots> = map f (take (Suc n) st) @ drop (Suc n) st"
    using n by (simp add: take_Suc_conv_app_nth)
  finally have "?s[n := f (st ! n)] = map f (take (Suc n) st) @ drop (Suc n) st" .
  with Suc nth show ?case by simp
qed

lemma filter_loop_all:
  "filter_loop d qa [0..<length st] st [] = (map (mark_item d qa) st, survivors d qa st)"
  by (simp add: filter_loop_fold fold_update_upt survivors_def)

lemma basic_text_filter_eq:
  "basic_text_filter d qa st =
     (map (mark_item d qa) st,
      take max_results
        (sort_key (\<lambda>r. - sort_score (map (mark_item d qa) st ! r)) (survivors d qa st)))"
  by (simp add: basic_text_filter_def filter_loop_all)


lemma survivors_valid: "r \<in> set (survivors d qa st) \<Longrightarrow> r < length st \<and> threshold < score_item d qa (st ! r)"
  by (simp add: survivors_def)

lemma distinct_survivors: "distinct (survivors d qa st)"
  by (simp add: survivors_def)

lemma survivors_map_mark [simp]: "survivors d qa (map (mark_item d qa) st) = survivors d qa st"
  unfolding survivors_def by (rule filter_cong) simp_all

lemma map_mark_item_idem [simp]:
  "map (mark_item d qa) (map (mark_item d qa) st) = map (mark_item d qa) st"
  by (induction st) simp_all

lemma basic_text_filter_store: "fst (basic_text_filter d qa st) = map (mark_item d qa) st"
  by (simp add: basic_text_filter_eq)

lemma basic_text_filter_subset:
  "set (snd (basic_text_filter d qa st)) \<subseteq> set (survivors d qa st)"
  using set_take_subset by (fastforce simp: basic_text_filter_eq)

lemma basic_text_filter_length: "length (snd (basic_text_filter d qa st)) \<le> 20"
  by (simp add: basic_text_filter_eq max_results_def)

lemma basic_text_filter_distinct: "distinct (snd (basic_text_filter d qa st))"
  by (simp add: basic_text_filter_eq distinct_survivors)

lemma basic_text_filter_valid:
  "r \<in> set (snd (basic_text_filter d qa st)) \<Longrightarrow> r < length st"
  using basic_text_filter_subset survivors_valid by blast

lemma basic_text_filter_score:
  assumes "r \<in> set (snd (basic_text_filter d qa st))"
  shows "relevance_score (fst (basic_text_filter d qa st) ! r) =
           Some (JInt (min 98 (score_item d qa (st ! r)))) \<and>
         threshold < score_item d qa (st ! r)"
proof -
  have "r \<in> set (survivors d qa st)"
    using assms basic_text_filter_subset by blast
  then have "r < length st" "threshold < score_item d qa (st ! r)"
    using survivors_valid by blast+
  then show ?thesis
    by (simp add: basic_text_filter_store mark_item_def)
qed

lemma basic_text_filter_sorted:
  "sorted (map (\<lambda>r. - sort_score (fst (basic_text_filter d qa st) ! r))
             (snd (basic_text_filter d qa st)))"
  by (simp add: basic_text_filter_eq take_map [symmetric] sorted_wrt_take)

lemma basic_text_filter_again:
  "basic_text_filter d qa (fst (basic_text_filter d qa st)) = basic_text_filter d qa st"
  unfolding basic_text_filter_eq fst_conv map_mark_item_idem survivors_map_mark ..

lemma basic_text_filter_output:
  fixes d qa st
  defines "out \<equiv> map (\<lambda>r. fst (basic_text_filter d qa st) ! r) (snd (basic_text_filter d qa st))"
  shows "basic_text_filter d qa out = (out, [0..<length out])"
proof -
  let ?st = "fst (basic_text_filter d qa st)"
  let ?refs = "snd (basic_text_filter d qa st)"
  have el: "out ! k = mark_item d qa (st ! (?refs ! k)) \<and>
            threshold < score_item d qa (st ! (?refs ! k))" if "k < length out" for k
  proof -
    have "?refs ! k \<in> set ?refs" using that by (simp add: out_def)
    then have "?refs ! k < length st" "threshold < score_item d qa (st ! (?refs ! k))"
      using basic_text_filter_valid basic_text_filter_score by blast+
    then show ?thesis using that by (simp add: out_def basic_text_filter_store)
  qed
  have marked: "map (mark_item d qa) out = out"
    by (rule nth_equalityI) (simp_all add: el)
  have all: "survivors d qa out = [0..<length out]"
    unfolding survivors_def by (rule filter_True) (simp add: el)
  have "map (\<lambda>r. - sort_score (out ! r)) [0..<length out] = map (\<lambda>it. - sort_score it) out"
    by (rule nth_equalityI) simp_all
  also have "\<dots> = map (\<lambda>r. - sort_score (?st ! r)) ?refs"
    by (simp add: out_def)
  finally have "sorted (map (\<lambda>r. - sort_score (out ! r)) [0..<length out])"
    using basic_text_filter_sorted [of d qa st] by simp
  then have "sort_key (\<lambda>r. - sort_score (out ! r)) [0..<length out] = [0..<length out]"
    by (rule sort_key_id_if_sorted)
  moreover have "length out \<le> max_results"
    using basic_text_filter_length [of d qa st] by (simp add: out_def max_results_def)
  ultimately show ?thesis
    by (simp add: basic_text_filter_eq marked all)
qed

lemma score_item_undated:
  "published_date it = None \<Longrightarrow> score_item d' qa it = score_item d qa it"
  by (simp add: score_item_def freshness_score_def)

lemma mark_item_undated:
  "published_date it = None \<Longrightarrow> mark_item d' qa it = mark_item d qa it"
  by (simp add: mark_item_def score_item_undated [of it d' qa d])

lemma basic_text_filter_undated:
  assumes "\<forall>it\<in>set st. published_date it = None"
  shows "basic_text_filter d' qa st = basic_text_filter d qa st"
proof -
  have m: "map (mark_item d' qa) st = map (mark_item d qa) st"
    using assms by (intro map_cong) (simp_all add: mark_item_undated)
  have s: "survivors d' qa st = survivors d qa st"
    unfolding survivors_def using assms
    by (intro filter_cong) (simp_all add: score_item_undated [of _ d' qa d])
  show ?thesis
    by (simp only: basic_text_filter_eq m s)
qed

text \<open>
  C8 (amended).  At one reading \<open>d\<close> of the clock, running \<open>_basic_text_filter\<close> a
  second time on the same items, which the first run has marked with their scores,
  changes no item and returns the same list in the same order; running it on the list
  it returned keeps every item, in the same order, with the same scores.  For items
  without \<open>published_date\<close>, as the agent builds them, the result is the same at every
  reading of the clock.
\<close>

theorem basic_text_filter_idempotent:
  "basic_text_filter d qa (fst (basic_text_filter d qa st)) = basic_text_filter d qa st \<and>
   basic_text_filter d qa
     (map (\<lambda>r. fst (basic_text_filter d qa st) ! r) (snd (basic_text_filter d qa st))) =
     (map (\<lambda>r. fst (basic_text_filter d qa st) ! r) (snd (basic_text_filter d qa st)),
      [0..<length (snd (basic_text_filter d qa st))]) \<and>
   ((\<forall>it\<in>set st. published_date it = None) \<longrightarrow>
      basic_text_filter d' qa st = basic_text_filter d qa st)"
  using basic_text_filter_again [of d qa st] basic_text_filter_output [of d qa st]
    basic_text_filter_undated [of st d' qa d]
  by simp

section \<open>Content analyzer: the loops of \<open>_llm_relevance_ranking\<close>\<close>

lemma ranked_indices_Nil [simp]: "ranked_indices n [] = []"
  by (simp add: ranked_indices_def)

lemma ranked_indices_Cons:
  "ranked_indices n (rank # ranks) =
     (case rank of
        JObj kvs \<Rightarrow> (case id_index (dict_get kvs ''id'') n of Inr (Some k) \<Rightarrow> [k] | _ \<Rightarrow> [])
      | _ \<Rightarrow> []) @ ranked_indices n ranks"
  by (simp add: ranked_indices_def)

lemma id_index_bound: "id_index v n = Inr (Some k) \<Longrightarrow> k < n"
  by (auto simp: id_index_def split: json.splits if_splits)

lemma ranked_indices_bound: "k \<in> set (ranked_indices n ranks) \<Longrightarrow> k < n"
  by (induction ranks)
     (auto simp: ranked_indices_Cons id_index_bound split: json.splits sum.splits option.splits)

lemma rank_loop_skip:
  "id_index (dict_get kvs ''id'') (length items) = Inr None \<Longrightarrow>
     rank_loop (JObj kvs # ranks) items st acc = rank_loop ranks items st acc"
  by simp

lemma rank_loop_take:
  "id_index (dict_get kvs ''id'') (length items) = Inr (Some k) \<Longrightarrow>
     rank_loop (JObj kvs # ranks) items st acc =
       rank_loop ranks items (st[items ! k := write_rank kvs (st ! (items ! k))])
         (acc @ [items ! k])"
  by (simp add: Let_def write_rank_def)

lemma rank_loop_raise:
  "id_index (dict_get kvs ''id'') (length items) = Inl e \<Longrightarrow>
     rank_loop (JObj kvs # ranks) items st acc = (Inl e, st)"
  by simp

lemma rank_loop_not_dict:
  "\<forall>kvs. rank \<noteq> JObj kvs \<Longrightarrow> rank_loop (rank # ranks) items st acc = (Inl AttributeError, st)"
  by (cases rank) simp_all

lemma rank_loop_Inr:
  "rank_loop ranks items st acc = (Inr out, st') \<Longrightarrow>
     out = acc @ map (\<lambda>k. items ! k) (ranked_indices (length items) ranks) \<and>
     list_all (well_formed_rank (length items)) ranks \<and> length st' = length st"
proof (induction ranks arbitrary: st acc)
  case Nil
  then show ?case by simp
next
  case (Cons rank ranks)
  show ?case
  proof (cases "\<exists>kvs. rank = JObj kvs")
    case False
    then have "rank_loop (rank # ranks) items st acc = (Inl AttributeError, st)"
      by (intro rank_loop_not_dict) simp
    with Cons.prems show ?thesis by (simp del: rank_loop.simps)
  next
    case True
    then obtain kvs where rank: "rank = JObj kvs" by blast
    show ?thesis
    proof (cases "id_index (dict_get kvs ''id'') (length items)")
      case (Inl e)
      then have "rank_loop (rank # ranks) items st acc = (Inl e, st)"
        using rank by (simp only: rank_loop_raise)
      with Cons.prems show ?thesis by (simp del: rank_loop.simps)
    next
      case (Inr x)
      show ?thesis
      proof (cases x)
        case None
        with Inr have "rank_loop ranks items st acc = (Inr out, st')"
          using Cons.prems rank by (simp only: rank_loop_skip)
        from Cons.IH [OF this] Inr None rank show ?thesis
          by (simp add: ranked_indices_Cons well_formed_rank_def)
      next
        case (Some k)
        with Inr have "rank_loop ranks items (st[items ! k := write_rank kvs (st ! (items ! k))])
                         (acc @ [items ! k]) = (Inr out, st')"
          using Cons.prems rank by (simp only: rank_loop_take)
        from Cons.IH [OF this] Inr Some rank show ?thesis
          by (simp add: ranked_indices_Cons well_formed_rank_def)
      qed
    qed
  qed
qed

lemma rank_loop_well_formed:
  "list_all (well_formed_rank (length items)) ranks \<Longrightarrow>
     \<exists>out st'. rank_loop ranks items st acc = (Inr out, st')"
proof (induction ranks arbitrary: st acc)
  case Nil
  then show ?case by simp
next
  case (Cons rank ranks)
  then obtain kvs x where rank: "rank = JObj kvs"
    and x: "id_index (dict_get kvs ''id'') (length items) = Inr x"
    by (cases rank; cases "id_index (dict_get (case rank of JObj kvs \<Rightarrow> kvs) ''id'') (length items)")
       (auto simp: well_formed_rank_def)
  have rest: "\<exists>out st'. rank_loop ranks items s a = (Inr out, st')" for s a
    using Cons by simp
  show ?case
  proof (cases x)
    case None
    with x rank rest [of st acc] show ?thesis by (simp only: rank_loop_skip)
  next
    case (Some k)
    with x rank rest [of "st[items ! k := write_rank kvs (st ! (items ! k))]" "acc @ [items ! k]"]
    show ?thesis by (simp only: rank_loop_take)
  qed
qed

lemma rank_loop_raises_iff:
  "isl (fst (rank_loop ranks items st acc)) \<longleftrightarrow>
     \<not> list_all (well_formed_rank (length items)) ranks"
proof
  assume "isl (fst (rank_loop ranks items st acc))"
  then show "\<not> list_all (well_formed_rank (length items)) ranks"
    using rank_loop_well_formed [of items ranks st acc] by auto
next
  assume "\<not> list_all (well_formed_rank (length items)) ranks"
  then show "isl (fst (rank_loop ranks items st acc))"
    using rank_loop_Inr [of ranks items st acc]
    by (cases "rank_loop ranks items st acc"; cases "fst (rank_loop ranks items st acc)")
       (auto simp del: rank_loop.simps)
qed


lemma id_index_Some_iff:
  "\<not> isl (id_index v n) \<Longrightarrow>
     id_index v n = Inr (Some k) \<longleftrightarrow> k < n \<and> v \<noteq> JNull \<and> py_eq_index k v"
  by (cases v) (auto simp: id_index_def py_eq_index_def split: if_splits)

lemma ranked_indices_iff:
  "list_all (well_formed_rank n) ranks \<Longrightarrow>
     k \<in> set (ranked_indices n ranks) \<longleftrightarrow>
       k < n \<and> (\<exists>v\<in>set (ranked_ids_of ranks). py_eq_index k v)"
proof (induction ranks)
  case Nil
  then show ?case by (simp add: ranked_ids_of_def)
next
  case (Cons rank ranks)
  then obtain kvs where rank: "rank = JObj kvs"
    and ok: "\<not> isl (id_index (dict_get kvs ''id'') n)"
    by (cases rank) (auto simp: well_formed_rank_def)
  let ?v = "dict_get kvs ''id''"
  have ids: "set (ranked_ids_of (JObj kvs # ranks)) =
               (if ?v \<noteq> JNull then {?v} else {}) \<union> set (ranked_ids_of ranks)"
    by (simp add: ranked_ids_of_def)
  have idx: "set (ranked_indices n (JObj kvs # ranks)) =
               set (case id_index ?v n of Inr (Some k) \<Rightarrow> [k] | _ \<Rightarrow> []) \<union>
               set (ranked_indices n ranks)"
    by (simp add: ranked_indices_Cons)
  have here: "k \<in> set (case id_index ?v n of Inr (Some k) \<Rightarrow> [k] | _ \<Rightarrow> [])
                \<longleftrightarrow> k < n \<and> ?v \<noteq> JNull \<and> py_eq_index k ?v"
    using id_index_Some_iff [OF ok, of k]
    by (auto split: sum.splits option.splits)
  have rest: "k \<in> set (ranked_indices n ranks) \<longleftrightarrow>
       k < n \<and> (\<exists>v\<in>set (ranked_ids_of ranks). py_eq_index k v)"
    using Cons by simp
  have "k \<in> set (ranked_indices n (JObj kvs # ranks)) \<longleftrightarrow>
          k < n \<and> (\<exists>v\<in>set (ranked_ids_of (JObj kvs # ranks)). py_eq_index k v)"
    unfolding idx ids Un_iff here rest by auto
  then show ?case by (simp only: rank)
qed

lemma remaining_items_indices:
  assumes "list_all (well_formed_rank (length items)) ranks"
  shows "remaining_items (ranked_ids_of ranks) items =
           map (\<lambda>i. items ! i)
             (filter (\<lambda>i. i \<notin> set (ranked_indices (length items) ranks)) [0..<length items])"
proof -
  have "filter (\<lambda>i. \<not> (\<exists>v\<in>set (ranked_ids_of ranks). py_eq_index i v)) [0..<length items] =
        filter (\<lambda>i. i \<notin> set (ranked_indices (length items) ranks)) [0..<length items]"
    by (rule filter_cong) (simp_all add: ranked_indices_iff [OF assms])
  then show ?thesis by (simp add: remaining_items_def)
qed

lemma unranked_in_order:
  assumes "distinct items" and "\<forall>k\<in>set ks. k < length items"
  shows "map (\<lambda>i. items ! i) (filter (\<lambda>i. i \<notin> set ks) [0..<length items]) =
           filter (\<lambda>r. r \<notin> set (map (\<lambda>k. items ! k) ks)) items"
proof -
  have "filter (\<lambda>r. r \<notin> set (map (\<lambda>k. items ! k) ks)) items =
        filter (\<lambda>r. r \<notin> set (map (\<lambda>k. items ! k) ks)) (map (\<lambda>i. items ! i) [0..<length items])"
    by (simp add: map_nth)
  also have "\<dots> = map (\<lambda>i. items ! i)
                     (filter (\<lambda>i. items ! i \<notin> set (map (\<lambda>k. items ! k) ks)) [0..<length items])"
    by (simp add: filter_map comp_def)
  also have "filter (\<lambda>i. items ! i \<notin> set (map (\<lambda>k. items ! k) ks)) [0..<length items] =
             filter (\<lambda>i. i \<notin> set ks) [0..<length items]"
  proof (rule filter_cong)
    fix i assume "i \<in> set [0..<length items]"
    then have i: "i < length items" by simp
    show "(items ! i \<notin> set (map (\<lambda>k. items ! k) ks)) = (i \<notin> set ks)"
      using assms i by (auto simp: nth_eq_iff_index_eq)
  qed simp
  finally show ?thesis by simp
qed

lemma rank_loop_result:
  assumes "list_all (well_formed_rank (length items)) ranks" and "distinct items"
  shows "\<exists>ranked st'.
           rank_loop ranks items st [] = (Inr ranked, st') \<and>
           set ranked \<subseteq> set items \<and>
           remaining_items (ranked_ids_of ranks) items = filter (\<lambda>r. r \<notin> set ranked) items"
proof -
  obtain ranked st' where run: "rank_loop ranks items st [] = (Inr ranked, st')"
    using rank_loop_well_formed [OF assms(1)] by blast
  then have ranked: "ranked = map (\<lambda>k. items ! k) (ranked_indices (length items) ranks)"
    using rank_loop_Inr by fastforce
  have bound: "\<forall>k\<in>set (ranked_indices (length items) ranks). k < length items"
    using ranked_indices_bound by blast
  then have "set ranked \<subseteq> set items"
    unfolding ranked by auto
  moreover have "remaining_items (ranked_ids_of ranks) items = filter (\<lambda>r. r \<notin> set ranked) items"
    unfolding ranked remaining_items_indices [OF assms(1)]
    by (rule unranked_in_order [OF assms(2) bound])
  ultimately show ?thesis using run by blast
qed


lemma get_llm_ranking_failed:
  "call_or_parse_failed decode llm \<Longrightarrow> get_llm_ranking decode llm n = default_ranking n"
  by (auto simp: call_or_parse_failed_def get_llm_ranking_def split: sum.splits)

lemma default_ranking_entries: "default_ranking n = JArr (map default_entry [0..<min 10 n])"
  by (simp add: default_ranking_def default_entry_def)

lemma default_entry_index:
  "i < n \<Longrightarrow>
     id_index (dict_get [(''id'', JInt (int i)), (''relevance_score'', JInt (10 - int i))] ''id'') n
       = Inr (Some i)"
  by (simp add: id_index_def dict_get_def)

lemma default_loop:
  "\<forall>i\<in>set is. i < length items \<Longrightarrow>
     rank_loop (map default_entry is) items st acc =
       (Inr (acc @ map (\<lambda>i. items ! i) is),
        fold (\<lambda>i s. s[items ! i := write_default i (s ! (items ! i))]) is st)"
proof (induction "is" arbitrary: st acc)
  case Nil
  then show ?case by simp
next
  case (Cons i "is")
  have i: "i < length items" using Cons.prems by simp
  have w: "write_rank [(''id'', JInt (int i)), (''relevance_score'', JInt (10 - int i))] it =
           write_default i it" for it
    by (simp add: write_rank_def write_default_def dict_get_default_def)
  have "rank_loop (map default_entry (i # is)) items st acc =
        rank_loop (map default_entry is) items
          (st[items ! i := write_default i (st ! (items ! i))]) (acc @ [items ! i])"
    unfolding list.map default_entry_def
    by (subst rank_loop_take [OF default_entry_index [OF i]]) (simp add: w)
  also have "\<dots> = (Inr ((acc @ [items ! i]) @ map (\<lambda>i. items ! i) is),
                    fold (\<lambda>i s. s[items ! i := write_default i (s ! (items ! i))]) is
                      (st[items ! i := write_default i (st ! (items ! i))]))"
    using Cons.prems by (intro Cons.IH) simp
  finally show ?case by simp
qed

lemma fold_writes_length [simp]:
  "length (fold (\<lambda>i s. s[g i := w i (s ! g i)]) is st) = length st"
  by (induction "is" arbitrary: st) simp_all

lemma fold_writes_other:
  "r \<notin> set (map g is) \<Longrightarrow> fold (\<lambda>i s. s[g i := w i (s ! g i)]) is st ! r = st ! r"
  by (induction "is" arbitrary: st) simp_all

lemma fold_writes_at:
  "distinct (map g is) \<Longrightarrow> i \<in> set is \<Longrightarrow> g i < length st \<Longrightarrow>
     fold (\<lambda>i s. s[g i := w i (s ! g i)]) is st ! g i = w i (st ! g i)"
proof (induction "is" arbitrary: st)
  case Nil
  then show ?case by simp
next
  case (Cons j "is")
  show ?case
  proof (cases "i = j")
    case True
    then have "g i \<notin> set (map g is)" using Cons.prems by simp
    then show ?thesis using True Cons.prems by (simp add: fold_writes_other)
  next
    case False
    then have i: "i \<in> set is" using Cons.prems by simp
    then have "g i \<in> g ` set is" by blast
    moreover have "g j \<notin> g ` set is" using Cons.prems by simp
    ultimately have "g i \<noteq> g j" by metis
    then show ?thesis using Cons i by simp
  qed
qed

lemma llm_relevance_ranking_failed:
  assumes failed: "call_or_parse_failed decode llm"
    and dist: "distinct filtered" and valid: "\<forall>r\<in>set filtered. r < length st"
  shows "\<exists>st'. llm_relevance_ranking decode llm st filtered = (Inr (take 10 filtered), st') \<and>
           length st' = length st \<and>
           (\<forall>i<length (take 10 filtered).
              relevance_score (st' ! (take 10 filtered ! i)) = Some (JInt (10 - int i)))"
proof -
  define items where "items = take 10 filtered"
  define n where "n = length items"
  define st' where
    "st' = fold (\<lambda>i s. s[items ! i := write_default i (s ! (items ! i))]) [0..<n] st"
  have n: "min 10 n = n" by (simp add: n_def items_def)
  have all: "map (\<lambda>i. items ! i) [0..<n] = items"
    unfolding n_def by (rule map_nth)
  have ranks: "py_iter (get_llm_ranking decode llm n) = Inr (map default_entry [0..<n])"
    by (simp only: get_llm_ranking_failed [OF failed] default_ranking_entries n)
       (simp add: py_iter_def)
  have "rank_loop (map default_entry [0..<n]) items st [] =
          (Inr ([] @ map (\<lambda>i. items ! i) [0..<n]), st')"
    unfolding st'_def by (rule default_loop) (simp add: n_def)
  then have loop: "rank_loop (map default_entry [0..<n]) items st [] = (Inr items, st')"
    by (simp only: all append_Nil)
  have wf: "list_all (well_formed_rank (length items)) (map default_entry [0..<n])"
    using rank_loop_Inr [OF loop] by simp
  have d: "distinct items" using dist by (simp add: items_def)
  obtain ranked st'' where
    "rank_loop (map default_entry [0..<n]) items st [] = (Inr ranked, st'')"
    "remaining_items (ranked_ids_of (map default_entry [0..<n])) items =
       filter (\<lambda>r. r \<notin> set ranked) items"
    using rank_loop_result [OF wf d, of st] by blast
  with loop have rem: "remaining_items (ranked_ids_of (map default_entry [0..<n])) items = []"
    by simp
  have run: "llm_relevance_ranking decode llm st filtered = (Inr items, st')"
    unfolding llm_relevance_ranking_def Let_def items_def [symmetric] n_def [symmetric]
    by (simp add: ranks loop rem del: rank_loop.simps)
  have scores: "relevance_score (st' ! (items ! i)) = Some (JInt (10 - int i))"
    if "i < n" for i
  proof -
    have "items ! i \<in> set filtered"
      using that unfolding n_def items_def by (metis in_set_takeD nth_mem)
    then have "items ! i < length st" using valid by blast
    moreover have "distinct (map (\<lambda>i. items ! i) [0..<n])"
      using d by (simp only: all)
    ultimately have "st' ! (items ! i) = write_default i (st ! (items ! i))"
      unfolding st'_def using that by (intro fold_writes_at) simp_all
    then show ?thesis by (simp add: write_default_def)
  qed
  have "length st' = length st" by (simp add: st'_def)
  with run scores show ?thesis
    unfolding items_def [symmetric] n_def [symmetric] by blast
qed

section \<open>Content analyzer: evaluation on concrete inputs\<close>

lemma ai_items_filtered: "snd (basic_text_filter no_dates ai_query ai_items) = [2, 0]"
  by code_simp


lemma four_pages_filtered:
  "snd (basic_text_filter no_dates cats four_pages) = [3, 1, 0, 2]"
  by code_simp

lemma eleven_pages_filtered:
  "snd (basic_text_filter no_dates cats eleven_pages) = [1, 2, 3, 4, 5, 6, 7, 8, 9, 10, 0]"
  by code_simp

lemma four_pages_score_100:
  "map relevance_score (analyze no_dates (decode_to score_100) (Inr ''reply'') cats four_pages) =
     [Some (JInt 100), Some (JInt 14), Some (JInt 12), Some (JInt 10)]"
  by code_simp

lemma four_pages_string_id:
  "fst (llm_relevance_ranking (decode_to string_id) (Inr ''reply'')
          (fst (basic_text_filter no_dates cats four_pages))
          (snd (basic_text_filter no_dates cats four_pages))) = Inl TypeError"
  by code_simp

lemma four_pages_string_id_analyze:
  "map url (analyze no_dates (decode_to string_id) (Inr ''reply'') cats four_pages) =
     [''https://example.com/0'', ''https://example.com/1'', ''https://example.com/2'']"
  by code_simp

lemma four_pages_third_first:
  "fst (llm_relevance_ranking (decode_to third_first) (Inr ''reply'')
          (fst (basic_text_filter no_dates cats four_pages))
          (snd (basic_text_filter no_dates cats four_pages))) = Inr [0, 3, 1, 2]"
  by code_simp

lemma four_pages_no_json:
  "map relevance_score (analyze no_dates no_json (Inr ''I cannot rank these'') cats four_pages) =
     [Some (JInt 10), Some (JInt 9), Some (JInt 8), Some (JInt 7)]"
  by code_simp

lemma eleven_pages_string_id:
  "map url (analyze no_dates (decode_to string_id) (Inr ''reply'') cats eleven_pages) =
     [''https://example.com/p0'', ''https://example.com/p1'', ''https://example.com/p2'']"
  by code_simp

lemma eleven_pages_third_first:
  "fst (llm_relevance_ranking (decode_to third_first) (Inr ''reply'')
          (fst (basic_text_filter no_dates cats eleven_pages))
          (snd (basic_text_filter no_dates cats eleven_pages))) =
     Inr [3, 1, 2, 4, 5, 6, 7, 8, 9, 10]"
  by code_simp

lemma cats_key_terms: "key_terms_of cats = [''cats'']"
  by code_simp


section \<open>Content analyzer: bounds on the result\<close>

lemma score_in_range_mark_item:
  "score_in_range it \<Longrightarrow> score_in_range (mark_item d qa it)"
  by (simp add: mark_item_def score_in_range_def threshold_def)

lemma basic_text_filter_in_range:
  assumes "\<forall>it\<in>set content_items. score_in_range it"
  shows "\<forall>it\<in>set (fst (basic_text_filter d qa content_items)). score_in_range it"
  using assms by (simp add: basic_text_filter_store score_in_range_mark_item)

lemma analyze_small:
  assumes bf: "basic_text_filter d qa content_items = (st, filtered_items)"
    and small: "length filtered_items \<le> 3"
  shows "analyze d decode llm qa content_items =
           (if filtered_items = [] then take 3 st else map (\<lambda>r. st ! r) filtered_items)"
  using small by (simp add: analyze_def bf)

lemma analyze_ranked:
  assumes bf: "basic_text_filter d qa content_items = (st, filtered_items)"
    and big: "3 < length filtered_items"
    and run: "llm_relevance_ranking decode llm st filtered_items = (res, st')"
  shows "analyze d decode llm qa content_items =
           (case res of Inl e \<Rightarrow> take 3 st' | Inr ranked_items \<Rightarrow> map (\<lambda>r. st' ! r) ranked_items)"
  using big by (cases res) (auto simp: analyze_def bf run)

text \<open>
  C2 (amended).  For items that come without a score (or with one between 0 and 98),
  \<open>_basic_text_filter\<close> returns at most 20 items, each with an integer score between 0
  and 98.  The result
  of \<open>analyze\<close> has at most 20 items, each without a score or with a score between 0
  and 98, whenever the model's ranking is not used: at most 3 items passed the filter,
  or the generative call or the decoding failed.  (A ranking the model returns is
  taken as it is.)
\<close>

theorem analyze_bounds:
  assumes "basic_text_filter d qa content_items = (st, filtered_items)"
    and "\<forall>it\<in>set content_items. score_in_range it"
  shows "length filtered_items \<le> 20 \<and>
         (\<forall>r\<in>set filtered_items.
            \<exists>n. relevance_score (st ! r) = Some (JInt n) \<and> 0 \<le> n \<and> n \<le> 98) \<and>
         (length filtered_items \<le> 3 \<or> call_or_parse_failed decode llm \<longrightarrow>
            length (analyze d decode llm qa content_items) \<le> 20 \<and>
            (\<forall>it\<in>set (analyze d decode llm qa content_items). score_in_range it))"
proof (intro conjI impI)
  have st: "st = fst (basic_text_filter d qa content_items)"
    and filtered: "filtered_items = snd (basic_text_filter d qa content_items)"
    using assms(1) by simp_all
  show len: "length filtered_items \<le> 20"
    unfolding filtered by (rule basic_text_filter_length)
  show "\<forall>r\<in>set filtered_items.
          \<exists>n. relevance_score (st ! r) = Some (JInt n) \<and> 0 \<le> n \<and> n \<le> 98"
  proof
    fix r assume "r \<in> set filtered_items"
    then have "relevance_score (st ! r) = Some (JInt (min 98 (score_item d qa (content_items ! r))))"
      and "threshold < score_item d qa (content_items ! r)"
      unfolding st filtered using basic_text_filter_score by blast+
    then show "\<exists>n. relevance_score (st ! r) = Some (JInt n) \<and> 0 \<le> n \<and> n \<le> 98"
      by (auto simp: threshold_def)
  qed
  have valid: "\<forall>r\<in>set filtered_items. r < length st"
    unfolding st filtered using basic_text_filter_valid [of _ d qa content_items]
    by (simp add: basic_text_filter_store)
  have inr: "\<forall>it\<in>set st. score_in_range it"
    unfolding st using assms(2) by (rule basic_text_filter_in_range)
  assume c: "length filtered_items \<le> 3 \<or> call_or_parse_failed decode llm"
  have "length (analyze d decode llm qa content_items) \<le> 20 \<and>
        (\<forall>it\<in>set (analyze d decode llm qa content_items). score_in_range it)"
  proof (cases "length filtered_items \<le> 3")
    case True
    have "\<forall>it\<in>set (take 3 st). score_in_range it"
      using inr by (meson in_set_takeD)
    moreover have "\<forall>it\<in>set (map (\<lambda>r. st ! r) filtered_items). score_in_range it"
      using inr valid by auto
    moreover have "length (take 3 st) \<le> 20" by simp
    ultimately show ?thesis
      using True unfolding analyze_small [OF assms(1) True] by (cases "filtered_items = []") simp_all
  next
    case False
    then have big: "3 < length filtered_items" and failed: "call_or_parse_failed decode llm"
      using c by simp_all
    have "distinct filtered_items"
      unfolding filtered by (rule basic_text_filter_distinct)
    then obtain st' where
      run: "llm_relevance_ranking decode llm st filtered_items = (Inr (take 10 filtered_items), st')"
      and scores: "\<forall>i<length (take 10 filtered_items).
          relevance_score (st' ! (take 10 filtered_items ! i)) = Some (JInt (10 - int i))"
      using llm_relevance_ranking_failed [OF failed _ valid] by blast
    have out: "analyze d decode llm qa content_items = map (\<lambda>r. st' ! r) (take 10 filtered_items)"
      by (simp add: analyze_ranked [OF assms(1) big run])
    have "score_in_range (st' ! r)" if mem: "r \<in> set (take 10 filtered_items)" for r
    proof -
      obtain i where i: "i < length (take 10 filtered_items)" and r: "r = take 10 filtered_items ! i"
        using mem unfolding in_set_conv_nth by blast
      have "relevance_score (st' ! (take 10 filtered_items ! i)) = Some (JInt (10 - int i))"
        using scores i by blast
      moreover have "i < 10" using i by simp
      ultimately show ?thesis
        unfolding r by (simp add: score_in_range_def)
    qed
    then show ?thesis by (simp add: out)
  qed
  then show "length (analyze d decode llm qa content_items) \<le> 20"
    and "\<forall>it\<in>set (analyze d decode llm qa content_items). score_in_range it"
    by simp_all
qed

theorem analyze_bounds_witness:
  "list_all score_in_range four_pages \<and>
   call_or_parse_failed no_json (Inr ''I cannot rank these'') \<and>
   length (analyze no_dates no_json (Inr ''I cannot rank these'') cats four_pages) \<le> 20 \<and>
   list_all score_in_range
     (analyze no_dates no_json (Inr ''I cannot rank these'') cats four_pages) \<and>
   map relevance_score (analyze no_dates no_json (Inr ''I cannot rank these'') cats four_pages) =
     [Some (JInt 10), Some (JInt 9), Some (JInt 8), Some (JInt 7)]"
proof -
  have a: "\<forall>it\<in>set four_pages. score_in_range it"
    by (simp add: four_pages_def page_def score_in_range_def)
  have b: "call_or_parse_failed no_json (Inr ''I cannot rank these'')"
    by (simp add: call_or_parse_failed_def no_json_def)
  note inst = analyze_bounds [OF surjective_pairing a, of no_dates cats no_json
               "Inr ''I cannot rank these''"]
  have "length (analyze no_dates no_json (Inr ''I cannot rank these'') cats four_pages) \<le> 20 \<and>
        (\<forall>it\<in>set (analyze no_dates no_json (Inr ''I cannot rank these'') cats four_pages).
           score_in_range it)"
    by (rule mp [OF inst [THEN conjunct2, THEN conjunct2]]) (rule disjI2, rule b)
  then show ?thesis
    using a b four_pages_no_json by (simp only: list_all_iff) simp
qed

text \<open>The claim as stated bounds the scores after the model's ranking too; a reply that
  gives item 0 the score 100 puts 100 into the result.\<close>

theorem model_score_counterexample:
  "key_terms_of cats = [''cats''] \<and>
   relevance_score (hd (analyze no_dates (decode_to score_100) (Inr ''reply'') cats four_pages)) =
     Some (JInt 100) \<and>
   \<not> score_in_range (hd (analyze no_dates (decode_to score_100) (Inr ''reply'') cats four_pages))"
proof -
  have "analyze no_dates (decode_to score_100) (Inr ''reply'') cats four_pages \<noteq> []"
    using four_pages_score_100 by auto
  then have "relevance_score
               (hd (analyze no_dates (decode_to score_100) (Inr ''reply'') cats four_pages)) =
             hd (map relevance_score
                   (analyze no_dates (decode_to score_100) (Inr ''reply'') cats four_pages))"
    by (simp add: hd_map)
  then have "relevance_score
               (hd (analyze no_dates (decode_to score_100) (Inr ''reply'') cats four_pages)) =
             Some (JInt 100)"
    by (simp add: four_pages_score_100)
  then show ?thesis
    using cats_key_terms by (simp add: score_in_range_def)
qed


theorem basic_text_filter_idempotent_witness:
  "snd (basic_text_filter no_dates ai_query ai_items) = [2, 0] \<and>
   basic_text_filter no_dates ai_query (fst (basic_text_filter no_dates ai_query ai_items)) =
     basic_text_filter no_dates ai_query ai_items \<and>
   snd (basic_text_filter no_dates ai_query
          (map (\<lambda>r. fst (basic_text_filter no_dates ai_query ai_items) ! r)
             (snd (basic_text_filter no_dates ai_query ai_items)))) = [0, 1] \<and>
   list_all (\<lambda>it. published_date it = None) ai_items \<and>
   basic_text_filter thirty_days ai_query ai_items =
     basic_text_filter no_dates ai_query ai_items"
proof -
  have u: "\<forall>it\<in>set ai_items. published_date it = None"
    by (simp add: ai_items_def ai_item_def)
  show ?thesis
    using basic_text_filter_idempotent [of no_dates ai_query ai_items thirty_days]
      ai_items_filtered u
    by (simp add: upt_rec list_all_iff)
qed

lemma dated_pages_day_89:
  "snd (basic_text_filter day_89 cats dated_pages) = [1, 0]"
  by code_simp

lemma dated_pages_day_90:
  "snd (basic_text_filter day_90 cats dated_pages) = [1]"
  by code_simp

lemma dated_pages_second_run:
  "snd (basic_text_filter day_90 cats (fst (basic_text_filter day_89 cats dated_pages))) = [1]"
  by code_simp

text \<open>The claim as stated has no clock; the code reads \<open>datetime.now()\<close> in every run.  A
  page with a date that is 89 days old in the first run and 90 days old in the second
  passes the filter with score 7 in the first and is dropped with score 4 in the
  second, on the same items and on an identical fresh copy.\<close>

theorem clock_counterexample:
  "snd (basic_text_filter day_89 cats dated_pages) = [1, 0] \<and>
   snd (basic_text_filter day_90 cats (fst (basic_text_filter day_89 cats dated_pages))) = [1] \<and>
   snd (basic_text_filter day_90 cats dated_pages) = [1] \<and>
   snd (basic_text_filter day_90 cats dated_pages) \<noteq>
     snd (basic_text_filter day_89 cats dated_pages)"
  using dated_pages_day_89 dated_pages_day_90 dated_pages_second_run by simp

section \<open>Content analyzer: the model's ranking\<close>

lemma llm_relevance_ranking_subset:
  assumes "llm_relevance_ranking decode llm st filtered_items = (Inr out, st')"
  shows "set out \<subseteq> set (take 10 filtered_items)"
proof -
  define items where "items = take 10 filtered_items"
  obtain ranks where it: "py_iter (get_llm_ranking decode llm (length items)) = Inr ranks"
    using assms unfolding llm_relevance_ranking_def Let_def items_def [symmetric]
    by (cases "py_iter (get_llm_ranking decode llm (length items))") auto
  obtain ranked st'' where loop: "rank_loop ranks items st [] = (Inr ranked, st'')"
    and out: "out = ranked @ remaining_items (ranked_ids_of ranks) items"
    using assms unfolding llm_relevance_ranking_def Let_def items_def [symmetric] it
    by (cases "rank_loop ranks items st []"; cases "fst (rank_loop ranks items st [])")
       (auto simp del: rank_loop.simps)
  have "ranked = map (\<lambda>k. items ! k) (ranked_indices (length items) ranks)"
    using rank_loop_Inr [OF loop] by simp
  then have "set ranked \<subseteq> set items"
    using ranked_indices_bound by fastforce
  moreover have "set (remaining_items (ranked_ids_of ranks) items) \<subseteq> set items"
    by (auto simp: remaining_items_def)
  ultimately show ?thesis
    unfolding out items_def by simp
qed

lemma distinct_beyond:
  assumes "distinct xs" and "n \<le> k" and "k < length xs"
  shows "xs ! k \<notin> set (take n xs)"
proof
  assume "xs ! k \<in> set (take n xs)"
  then obtain j where j: "j < length (take n xs)" and eq: "take n xs ! j = xs ! k"
    unfolding in_set_conv_nth by blast
  then have "j < n" "j < length xs" by simp_all
  moreover from this eq have "xs ! j = xs ! k" by simp
  ultimately show False
    using assms by (simp add: nth_eq_iff_index_eq)
qed

text \<open>
  What Phase B does with a reply it gets through.  When every entry of the ranking is a
  \<open>dict\<close> whose \<open>id\<close> is absent, \<open>null\<close>, a \<open>bool\<close>, an \<open>int\<close>, or a \<open>float\<close> outside
  the index range, the result is the items the entries name, in the order of the
  reply, followed by the items no entry names, in their Phase-A order.  When the
  generative call or the decoding fails, the result is the first 10 items in Phase-A
  order, the item at index \<open>i\<close> with score \<open>10 - i\<close>.
\<close>

lemma llm_relevance_ranking_typed_reply:
  assumes "basic_text_filter d qa content_items = (st, filtered_items)"
  shows "(\<forall>ranks.
            py_iter (get_llm_ranking decode llm (length (take 10 filtered_items))) = Inr ranks \<and>
            list_all (well_formed_rank (length (take 10 filtered_items))) ranks \<longrightarrow>
            (\<exists>st'.
               llm_relevance_ranking decode llm st filtered_items =
                 (Inr (map (\<lambda>k. take 10 filtered_items ! k)
                         (ranked_indices (length (take 10 filtered_items)) ranks) @
                       filter (\<lambda>r. r \<notin> set (map (\<lambda>k. take 10 filtered_items ! k)
                                             (ranked_indices (length (take 10 filtered_items))
                                                ranks)))
                         (take 10 filtered_items)), st'))) \<and>
         (call_or_parse_failed decode llm \<longrightarrow>
            (\<exists>st'.
               llm_relevance_ranking decode llm st filtered_items =
                 (Inr (take 10 filtered_items), st') \<and>
               (\<forall>i<length (take 10 filtered_items).
                  relevance_score (st' ! (take 10 filtered_items ! i)) =
                    Some (JInt (10 - int i)))))"
proof -
  define items where "items = take 10 filtered_items"
  define rankings where "rankings = get_llm_ranking decode llm (length items)"
  have st: "st = fst (basic_text_filter d qa content_items)"
    and filtered: "filtered_items = snd (basic_text_filter d qa content_items)"
    using assms by simp_all
  have dist: "distinct filtered_items"
    unfolding filtered by (rule basic_text_filter_distinct)
  then have d: "distinct items" by (simp add: items_def)
  have valid: "\<forall>r\<in>set filtered_items. r < length st"
    unfolding st filtered using basic_text_filter_valid [of _ d qa content_items]
    by (simp add: basic_text_filter_store)
  have run: "llm_relevance_ranking decode llm st filtered_items =
               (case py_iter rankings of
                  Inl e \<Rightarrow> (Inl e, st)
                | Inr ranks \<Rightarrow>
                    (case rank_loop ranks items st [] of
                       (Inl e, st') \<Rightarrow> (Inl e, st')
                     | (Inr ranked_items, st') \<Rightarrow>
                         (Inr (ranked_items @ remaining_items (ranked_ids_of ranks) items), st')))"
    by (simp only: llm_relevance_ranking_def Let_def items_def rankings_def)
  have a: "\<exists>st'.
             llm_relevance_ranking decode llm st filtered_items =
               (Inr (map (\<lambda>k. items ! k) (ranked_indices (length items) ranks) @
                     filter (\<lambda>r. r \<notin> set (map (\<lambda>k. items ! k)
                                           (ranked_indices (length items) ranks))) items), st')"
    if it: "py_iter rankings = Inr ranks" and wf: "list_all (well_formed_rank (length items)) ranks"
    for ranks
  proof -
    obtain ranked st' where loop: "rank_loop ranks items st [] = (Inr ranked, st')"
      and rem: "remaining_items (ranked_ids_of ranks) items = filter (\<lambda>r. r \<notin> set ranked) items"
      using rank_loop_result [OF wf d, of st] by blast
    have ranked: "ranked = map (\<lambda>k. items ! k) (ranked_indices (length items) ranks)"
      using rank_loop_Inr [OF loop] by simp
    show ?thesis
      unfolding run it using loop rem
      by (intro exI [of _ st']) (simp add: ranked del: rank_loop.simps)
  qed
  have b: "\<exists>st'.
             llm_relevance_ranking decode llm st filtered_items = (Inr items, st') \<and>
             (\<forall>i<length items. relevance_score (st' ! (items ! i)) = Some (JInt (10 - int i)))"
    if "call_or_parse_failed decode llm"
    using llm_relevance_ranking_failed [OF that dist valid] unfolding items_def by blast
  show ?thesis
    using a b unfolding items_def rankings_def by blast
qed

text \<open>
  C6.  The claim is for every model reply.  On the reply
  \<open>[{"id": "0", "relevance_score": 90}]\<close>, with four items that passed the filter, the
  guard \<open>0 <= item_id < len(items_for_analysis)\<close> raises \<open>TypeError\<close>: Phase B returns
  no ranking, and \<open>analyze\<close> returns the first three input items, without the item
  that Phase A ranked first.
\<close>

theorem string_id_drops_ranked_item:
  "snd (basic_text_filter no_dates cats four_pages) = [3, 1, 0, 2] \<and>
   fst (llm_relevance_ranking (decode_to string_id) (Inr ''reply'')
          (fst (basic_text_filter no_dates cats four_pages))
          (snd (basic_text_filter no_dates cats four_pages))) = Inl TypeError \<and>
   map url (analyze no_dates (decode_to string_id) (Inr ''reply'') cats four_pages) =
     [''https://example.com/0'', ''https://example.com/1'', ''https://example.com/2''] \<and>
   map url four_pages =
     [''https://example.com/0'', ''https://example.com/1'', ''https://example.com/2'',
      ''https://example.com/3'']"
  using four_pages_filtered four_pages_string_id four_pages_string_id_analyze
  by (simp add: four_pages_def page_def)

text \<open>
  C9 (amended).  Whenever Phase B runs (more than 3 items passed the filter) and
  returns a ranking, every item of the result of \<open>analyze\<close> is one of the first 10
  items that passed the filter: the result holds at most 10 different items, and the
  items at positions 11 to 20 of the Phase-A list are not in it.  Whenever Phase B
  raises, the result is the first three input items, whatever their Phase-A rank.
\<close>

theorem phase_b_keeps_top_ten:
  assumes "basic_text_filter d qa content_items = (st, filtered_items)"
    and "3 < length filtered_items"
  shows "(\<forall>ranked st'.
            llm_relevance_ranking decode llm st filtered_items = (Inr ranked, st') \<longrightarrow>
            analyze d decode llm qa content_items = map (\<lambda>r. st' ! r) ranked \<and>
            set ranked \<subseteq> set (take 10 filtered_items) \<and>
            card (set ranked) \<le> 10 \<and>
            (\<forall>k. 10 \<le> k \<and> k < length filtered_items \<longrightarrow> filtered_items ! k \<notin> set ranked)) \<and>
         (\<forall>e st'.
            llm_relevance_ranking decode llm st filtered_items = (Inl e, st') \<longrightarrow>
            analyze d decode llm qa content_items = take 3 st')"
proof (intro conjI allI impI)
  fix ranked st'
  assume run: "llm_relevance_ranking decode llm st filtered_items = (Inr ranked, st')"
  show "analyze d decode llm qa content_items = map (\<lambda>r. st' ! r) ranked"
    by (simp add: analyze_ranked [OF assms run])
  show sub: "set ranked \<subseteq> set (take 10 filtered_items)"
    using run by (rule llm_relevance_ranking_subset)
  have "card (set ranked) \<le> card (set (take 10 filtered_items))"
    using sub by (simp add: card_mono)
  also have "\<dots> \<le> length (take 10 filtered_items)"
    by (rule card_length)
  finally show "card (set ranked) \<le> 10" by simp
  fix k
  assume k: "10 \<le> k \<and> k < length filtered_items"
  have "distinct filtered_items"
    using assms(1) basic_text_filter_distinct [of d qa content_items] by simp
  then have "filtered_items ! k \<notin> set (take 10 filtered_items)"
    using k by (intro distinct_beyond) simp_all
  then show "filtered_items ! k \<notin> set ranked"
    using sub by blast
next
  fix e st'
  assume "llm_relevance_ranking decode llm st filtered_items = (Inl e, st')"
  then show "analyze d decode llm qa content_items = take 3 st'"
    by (simp add: analyze_ranked [OF assms])
qed

theorem phase_b_keeps_top_ten_witness:
  "3 < length (snd (basic_text_filter no_dates cats eleven_pages)) \<and>
   snd (basic_text_filter no_dates cats eleven_pages) ! 10 = 0 \<and>
   fst (llm_relevance_ranking (decode_to third_first) (Inr ''reply'')
          (fst (basic_text_filter no_dates cats eleven_pages))
          (snd (basic_text_filter no_dates cats eleven_pages))) =
     Inr [3, 1, 2, 4, 5, 6, 7, 8, 9, 10] \<and>
   length (analyze no_dates (decode_to third_first) (Inr ''reply'') cats eleven_pages) = 10"
proof -
  have big: "3 < length (snd (basic_text_filter no_dates cats eleven_pages))"
    by (simp add: eleven_pages_filtered)
  obtain st' where run:
    "llm_relevance_ranking (decode_to third_first) (Inr ''reply'')
       (fst (basic_text_filter no_dates cats eleven_pages))
       (snd (basic_text_filter no_dates cats eleven_pages)) =
     (Inr [3, 1, 2, 4, 5, 6, 7, 8, 9, 10], st')"
    using eleven_pages_third_first
    by (cases "llm_relevance_ranking (decode_to third_first) (Inr ''reply'')
          (fst (basic_text_filter no_dates cats eleven_pages))
          (snd (basic_text_filter no_dates cats eleven_pages))") simp
  note inst = phase_b_keeps_top_ten
                [OF surjective_pairing big, where decode = "decode_to third_first"
                   and llm = "Inr ''reply''"]
  have "analyze no_dates (decode_to third_first) (Inr ''reply'') cats eleven_pages =
          map (\<lambda>r. st' ! r) [3, 1, 2, 4, 5, 6, 7, 8, 9, 10]"
    using inst [THEN conjunct1, THEN spec, THEN spec, THEN mp, OF run] by (rule conjunct1)
  then have "length (analyze no_dates (decode_to third_first) (Inr ''reply'') cats eleven_pages)
               = 10"
    by simp
  then show ?thesis
    using big eleven_pages_third_first by (simp add: eleven_pages_filtered)
qed

text \<open>The claim as stated excludes the items ranked 11th and later whenever Phase B
  runs.  With eleven items that pass the filter, the first input item is ranked 11th;
  a reply whose \<open>id\<close> is a string makes Phase B raise, and the result starts with that
  item.\<close>

theorem ranked_eleventh_counterexample:
  "snd (basic_text_filter no_dates cats eleven_pages) = [1, 2, 3, 4, 5, 6, 7, 8, 9, 10, 0] \<and>
   url (eleven_pages ! 0) = ''https://example.com/p0'' \<and>
   map url (analyze no_dates (decode_to string_id) (Inr ''reply'') cats eleven_pages) =
     [''https://example.com/p0'', ''https://example.com/p1'', ''https://example.com/p2'']"
  using eleven_pages_filtered eleven_pages_string_id
  by (simp add: eleven_pages_def page_def)

end
